theory Spec2Isabelle
  imports Main
begin

section \<open>Data model\<close>

text \<open>
  The entities read and written by \<^verbatim>\<open>StripeWebhookServerService.createServer\<close>.
  Only the fields the handler touches are kept. A nullable column is an \<open>option\<close>.
  A field called \<^verbatim>\<open>id\<close> in the source carries its entity as a prefix here.
\<close>

record MiUser =
  user_id :: string
  subscriptionStatus :: string
  subscriptionPlanId :: "string option"
  stripeSubscriptionId :: "string option"

record MiUserProfile =
  userId :: string
  stripeCustomerId :: "string option"

record MiSubscriptionPlan =
  plan_id :: string
  stripePriceId :: string
  roleId :: string

text \<open>
  The subscription snapshot of an event (\<^verbatim>\<open>event.data.object\<close>). \<open>items_data\<close> holds
  \<^verbatim>\<open>items.data[i].plan.id\<close> for every item, in order.
\<close>

record Subscription =
  sub_id :: string
  customer :: string
  status :: string
  cancel_at_period_end :: bool
  items_data :: "string list"

record PreviousAttributes =
  prev_status :: "string option"

record Event =
  event_type :: string
  data_object :: Subscription
  previous_attributes :: "PreviousAttributes option"

record StripeConfig =
  secretKey :: string
  webhookSecret :: string

record Config =
  stripe :: "StripeConfig option"

record Request =
  rawBody :: "string option"
  stripe_signature :: "string option"

text \<open>The object handed to \<^verbatim>\<open>usersRepository.update\<close>; \<open>None\<close> in
  \<open>set_stripeSubscriptionId\<close> is JavaScript's \<^verbatim>\<open>undefined\<close>: the column is left as it is.\<close>

record UserPatch =
  set_subscriptionStatus :: string
  set_subscriptionPlanId :: "string option"
  set_stripeSubscriptionId :: "string option option"

section \<open>Effects, errors and the world\<close>

datatype level = Error | Warn | Info

datatype event_kind = Creation | Update | Deletion

datatype message =
    ConfigNotSet
  | EmptyBody
  | NoSignature
  | VerificationFailed
  | NoUserProfile string
  | SubscriptionExists string
  | RoleAssigned string string event_kind
  | RoleUnassigned string string event_kind
  | UnhandledEventType string

datatype query =
    ProfileByCustomer string
  | PlanByPrice string
  | PlanById string
  | AllPlans
  | UserById string

datatype effect =
    Log level message
  | ReplyCode nat
  | RepoRead query
  | RepoUpdateUser string UserPatch
  | GetUserRoles string
  | Assign string string
  | Unassign string string
  | Publish string string

datatype error = ProfileNotFound | EntityNotFound | TypeError | AlreadyAssigned

text \<open>
  The value the async handler returns when it does not throw: \<^verbatim>\<open>return;\<close> gives
  \<^verbatim>\<open>undefined\<close>, and \<^verbatim>\<open>return reply.code(n)\<close> gives the reply object itself, since
  \<^verbatim>\<open>reply.code\<close> returns the reply it was called on.
\<close>

datatype completion = ReturnsUndefined | ReturnsReply

record world =
  userProfiles :: "MiUserProfile list"
  users :: "MiUser list"
  subscriptionPlans :: "MiSubscriptionPlan list"
  roleAssignments :: "(string \<times> string) list"
  statusCode :: nat
  trace :: "effect list"

type_synonym 'a io = "world \<Rightarrow> (error + 'a) \<times> world"

definition return_io :: "'a \<Rightarrow> 'a io" where
  "return_io a w = (Inr a, w)"

definition throw :: "error \<Rightarrow> 'a io" where
  "throw e w = (Inl e, w)"

definition bind_io :: "'a io \<Rightarrow> ('a \<Rightarrow> 'b io) \<Rightarrow> 'b io" where
  "bind_io m f w = (case m w of (Inl e, w') \<Rightarrow> (Inl e, w') | (Inr a, w') \<Rightarrow> f a w')"

definition then_io :: "unit io \<Rightarrow> 'b io \<Rightarrow> 'b io" where
  "then_io m k = bind_io m (\<lambda>_. k)"

definition emit :: "effect \<Rightarrow> unit io" where
  "emit e w = (Inr (), w\<lparr>trace := trace w @ [e]\<rparr>)"

definition logger :: "level \<Rightarrow> message \<Rightarrow> unit io" where
  "logger l m = emit (Log l m)"

text \<open>\<^verbatim>\<open>reply.code(n)\<close> sets the status of the reply and sends nothing; the handler
  has no call of \<^verbatim>\<open>reply.send\<close>. \<open>return_reply_code\<close> is the statement
  \<^verbatim>\<open>return reply.code(n)\<close>.\<close>

definition reply_code :: "nat \<Rightarrow> unit io" where
  "reply_code n w = (Inr (), w\<lparr>statusCode := n, trace := trace w @ [ReplyCode n]\<rparr>)"

definition return_reply_code :: "nat \<Rightarrow> completion io" where
  "return_reply_code n = then_io (reply_code n) (return_io ReturnsReply)"

text \<open>JavaScript truthiness of a nullable string: \<^verbatim>\<open>null\<close>, \<^verbatim>\<open>undefined\<close> and the empty
  string are falsy.\<close>

definition truthy :: "string option \<Rightarrow> bool" where
  "truthy x = (case x of None \<Rightarrow> False | Some s \<Rightarrow> s \<noteq> [])"

section \<open>Repositories\<close>

definition orFail :: "'a option \<Rightarrow> 'a io" where
  "orFail x = (case x of None \<Rightarrow> throw EntityNotFound | Some a \<Rightarrow> return_io a)"

definition profile_findOneBy_stripeCustomerId :: "string \<Rightarrow> MiUserProfile option io" where
  "profile_findOneBy_stripeCustomerId c =
     then_io (emit (RepoRead (ProfileByCustomer c)))
       (\<lambda>w. (Inr (find (\<lambda>p. stripeCustomerId p = Some c) (userProfiles w)), w))"

definition plan_findOneByOrFail_stripePriceId :: "string \<Rightarrow> MiSubscriptionPlan io" where
  "plan_findOneByOrFail_stripePriceId p =
     then_io (emit (RepoRead (PlanByPrice p)))
       (\<lambda>w. orFail (find (\<lambda>x. stripePriceId x = p) (subscriptionPlans w)) w)"

definition plan_findOneByOrFail_id :: "string \<Rightarrow> MiSubscriptionPlan io" where
  "plan_findOneByOrFail_id i =
     then_io (emit (RepoRead (PlanById i)))
       (\<lambda>w. orFail (find (\<lambda>x. plan_id x = i) (subscriptionPlans w)) w)"

definition plan_find :: "MiSubscriptionPlan list io" where
  "plan_find = then_io (emit (RepoRead AllPlans)) (\<lambda>w. (Inr (subscriptionPlans w), w))"

definition user_findOneByOrFail_id :: "string \<Rightarrow> MiUser io" where
  "user_findOneByOrFail_id i =
     then_io (emit (RepoRead (UserById i)))
       (\<lambda>w. orFail (find (\<lambda>x. user_id x = i) (users w)) w)"

definition apply_patch :: "UserPatch \<Rightarrow> MiUser \<Rightarrow> MiUser" where
  "apply_patch p u =
     u\<lparr>subscriptionStatus := set_subscriptionStatus p,
       subscriptionPlanId := set_subscriptionPlanId p,
       stripeSubscriptionId :=
         (case set_stripeSubscriptionId p of None \<Rightarrow> stripeSubscriptionId u | Some v \<Rightarrow> v)\<rparr>"

definition user_update :: "string \<Rightarrow> UserPatch \<Rightarrow> unit io" where
  "user_update i p =
     then_io (emit (RepoUpdateUser i p))
       (\<lambda>w. (Inr (), w\<lparr>users := map (\<lambda>u. if user_id u = i then apply_patch p u else u) (users w)\<rparr>))"

section \<open>Role service and event bus\<close>

text \<open>
  Modelled from the spec: \<^verbatim>\<open>RoleService\<close> is not part of the source at hand. The spec
  gives its interface as \<^verbatim>\<open>getUserRoles(userId)\<close>, \<^verbatim>\<open>assign(userId, roleId)\<close>,
  \<^verbatim>\<open>unassign(userId, roleId)\<close> and says that assigning a role already held is a
  duplicate-assignment error. The roles a user holds are the role ids assigned to them.
\<close>

definition roles_of :: "world \<Rightarrow> string \<Rightarrow> string list" where
  "roles_of w u = map snd (filter (\<lambda>a. fst a = u) (roleAssignments w))"

definition getUserRoles :: "string \<Rightarrow> string list io" where
  "getUserRoles u = then_io (emit (GetUserRoles u)) (\<lambda>w. (Inr (roles_of w u), w))"

definition assign :: "string \<Rightarrow> string \<Rightarrow> unit io" where
  "assign u r =
     then_io (emit (Assign u r))
       (\<lambda>w. if (u, r) \<in> set (roleAssignments w) then (Inl AlreadyAssigned, w)
            else (Inr (), w\<lparr>roleAssignments := roleAssignments w @ [(u, r)]\<rparr>))"

definition unassign :: "string \<Rightarrow> string \<Rightarrow> unit io" where
  "unassign u r =
     then_io (emit (Unassign u r))
       (\<lambda>w. (Inr (), w\<lparr>roleAssignments := filter (\<lambda>a. a \<noteq> (u, r)) (roleAssignments w)\<rparr>))"

text \<open>
  Modelled from the spec: \<^verbatim>\<open>GlobalEventService.publishMainStream\<close> and
  \<^verbatim>\<open>UserEntityService.pack\<close> are not part of the source at hand; publishing the packed
  user is one notification on the user's main stream.
\<close>

definition publishMainStream :: "string \<Rightarrow> string \<Rightarrow> unit io" where
  "publishMainStream u name = emit (Publish u name)"

section \<open>The webhook handler\<close>

text \<open>\<^verbatim>\<open>subscription.items.data[0].plan.id\<close>: reading a field of \<^verbatim>\<open>undefined\<close> throws.\<close>

definition first_price :: "Subscription \<Rightarrow> string io" where
  "first_price s = (case items_data s of [] \<Rightarrow> throw TypeError | p # _ \<Rightarrow> return_io p)"

definition preprocessEvent :: "Subscription \<Rightarrow> (MiUserProfile \<times> Subscription) io" where
  "preprocessEvent eventData =
     bind_io (profile_findOneBy_stripeCustomerId (customer eventData)) (\<lambda>userProfile.
       case userProfile of
         None \<Rightarrow> then_io (logger Warn (NoUserProfile (customer eventData))) (throw ProfileNotFound)
       | Some p \<Rightarrow> return_io (p, eventData))"

text \<open>The three places of the source that assign the plan's role when the user's roles
  (as read before) do not contain it.\<close>

definition assign_if_absent :: "event_kind \<Rightarrow> string \<Rightarrow> string \<Rightarrow> string list \<Rightarrow> unit io" where
  "assign_if_absent k u r roles =
     (if r \<notin> set roles
      then then_io (assign u r) (logger Info (RoleAssigned u r k))
      else return_io ())"

definition subscription_created :: "MiUserProfile \<Rightarrow> Subscription \<Rightarrow> unit io" where
  "subscription_created userProfile subscription =
     bind_io (first_price subscription) (\<lambda>price.
     bind_io (plan_findOneByOrFail_stripePriceId price) (\<lambda>subscriptionPlan.
     bind_io (user_findOneByOrFail_id (userId userProfile)) (\<lambda>user.
       if stripeSubscriptionId user \<noteq> None
       then logger Info (SubscriptionExists (user_id user))
       else
         then_io
           (if status subscription = ''active''
            then bind_io (getUserRoles (userId userProfile))
                   (assign_if_absent Creation (userId userProfile) (roleId subscriptionPlan))
            else return_io ())
        (then_io
           (user_update (userId userProfile)
              \<lparr>set_subscriptionStatus = status subscription,
               set_subscriptionPlanId = Some (plan_id subscriptionPlan),
               set_stripeSubscriptionId = Some (Some (sub_id subscription))\<rparr>)
           (publishMainStream (userId userProfile) ''meUpdated'')))))"

text \<open>The loop of the source over the user's roles: every role of the plan catalogue
  other than the new plan's is unassigned.\<close>

fun unassign_others :: "string \<Rightarrow> string list \<Rightarrow> string \<Rightarrow> string list \<Rightarrow> unit io" where
  "unassign_others u roleIds r [] = return_io ()"
| "unassign_others u roleIds r (role # roles) =
     then_io
       (if role \<in> set roleIds \<and> role \<noteq> r
        then then_io (unassign u role) (logger Info (RoleUnassigned u role Update))
        else return_io ())
       (unassign_others u roleIds r roles)"

definition update_roles :: "MiUser \<Rightarrow> Subscription \<Rightarrow> PreviousAttributes option \<Rightarrow>
    MiSubscriptionPlan \<Rightarrow> unit io" where
  "update_roles user subscription previousData subscriptionPlan =
     (if \<not> truthy (subscriptionPlanId user)
      then
        bind_io plan_find (\<lambda>plans.
        bind_io (getUserRoles (user_id user)) (\<lambda>roles.
          then_io (unassign_others (user_id user) (map roleId plans) (roleId subscriptionPlan) roles)
            (assign_if_absent Update (user_id user) (roleId subscriptionPlan) roles)))
      else if Some (plan_id subscriptionPlan) \<noteq> subscriptionPlanId user
      then
        bind_io (plan_findOneByOrFail_id (the (subscriptionPlanId user))) (\<lambda>oldSubscriptionPlan.
        bind_io (getUserRoles (user_id user)) (\<lambda>roles.
          then_io
            (if roleId oldSubscriptionPlan \<in> set roles
             then then_io (unassign (user_id user) (roleId oldSubscriptionPlan))
                    (logger Info (RoleUnassigned (user_id user) (roleId oldSubscriptionPlan) Update))
             else return_io ())
            (assign_if_absent Update (user_id user) (roleId subscriptionPlan) roles)))
      else if (case previousData of None \<Rightarrow> False | Some p \<Rightarrow> truthy (prev_status p))
      then
        bind_io (getUserRoles (user_id user))
          (assign_if_absent Update (user_id user) (roleId subscriptionPlan))
      else return_io ())"

text \<open>The final write and notification of the update transition.\<close>

definition persist_update :: "MiUser \<Rightarrow> Subscription \<Rightarrow> MiSubscriptionPlan \<Rightarrow> unit io" where
  "persist_update user subscription subscriptionPlan =
     then_io
       (user_update (user_id user)
          \<lparr>set_subscriptionStatus = status subscription,
           set_subscriptionPlanId =
             (if status subscription \<noteq> ''incomplete_expired''
              then Some (plan_id subscriptionPlan) else None),
           set_stripeSubscriptionId =
             (if status subscription \<noteq> ''incomplete_expired''
              then (if truthy (stripeSubscriptionId user) then None
                    else Some (Some (sub_id subscription)))
              else Some None)\<rparr>)
       (publishMainStream (user_id user) ''meUpdated'')"

text \<open>The guard shared by the update and the deletion transition: the user has a
  stored subscription id and the event's is another one.\<close>

definition foreign :: "MiUser \<Rightarrow> Subscription \<Rightarrow> bool" where
  "foreign user subscription =
     (truthy (stripeSubscriptionId user) \<and> stripeSubscriptionId user \<noteq> Some (sub_id subscription))"

definition subscription_updated :: "MiUserProfile \<Rightarrow> Subscription \<Rightarrow> PreviousAttributes option \<Rightarrow>
    unit io" where
  "subscription_updated userProfile subscription previousData =
     bind_io (user_findOneByOrFail_id (userId userProfile)) (\<lambda>user.
     bind_io (first_price subscription) (\<lambda>price.
     bind_io (plan_findOneByOrFail_stripePriceId price) (\<lambda>subscriptionPlan.
       if foreign user subscription
       then return_io ()
       else if status subscription = ''active''
       then then_io (update_roles user subscription previousData subscriptionPlan)
              (persist_update user subscription subscriptionPlan)
       else if cancel_at_period_end subscription
       then return_io ()
       else persist_update user subscription subscriptionPlan)))"

definition subscription_deleted :: "MiUserProfile \<Rightarrow> Subscription \<Rightarrow> unit io" where
  "subscription_deleted userProfile subscription =
     bind_io (first_price subscription) (\<lambda>price.
     bind_io (plan_findOneByOrFail_stripePriceId price) (\<lambda>subscriptionPlan.
     bind_io (user_findOneByOrFail_id (userId userProfile)) (\<lambda>user.
       if foreign user subscription
       then return_io ()
       else
         then_io
           (bind_io (getUserRoles (userId userProfile)) (\<lambda>roles.
              if roleId subscriptionPlan \<in> set roles
              then then_io (unassign (userId userProfile) (roleId subscriptionPlan))
                     (logger Info (RoleUnassigned (userId userProfile) (roleId subscriptionPlan) Deletion))
              else return_io ()))
        (then_io
           (user_update (userId userProfile)
              \<lparr>set_subscriptionStatus = status subscription,
               set_subscriptionPlanId = None,
               set_stripeSubscriptionId = Some None\<rparr>)
           (publishMainStream (userId userProfile) ''meUpdated'')))))"

text \<open>The part of the handler after the signature check: preprocessing, the 204 and
  the \<^verbatim>\<open>switch\<close> on the event type. Each of the three case blocks leaves the handler
  by \<^verbatim>\<open>return;\<close>, at its end or earlier, so a transition that does not throw makes the
  handler return \<^verbatim>\<open>undefined\<close>; the default case ends with
  \<^verbatim>\<open>return reply.code(400)\<close>.\<close>

definition handle_event :: "Event \<Rightarrow> completion io" where
  "handle_event event =
     bind_io (preprocessEvent (data_object event)) (\<lambda>(userProfile, subscription).
       then_io (reply_code 204)
         (if event_type event = ''customer.subscription.created''
          then then_io (subscription_created userProfile subscription)
                 (return_io ReturnsUndefined)
          else if event_type event = ''customer.subscription.updated''
          then then_io (subscription_updated userProfile subscription (previous_attributes event))
                 (return_io ReturnsUndefined)
          else if event_type event = ''customer.subscription.deleted''
          then then_io (subscription_deleted userProfile subscription)
                 (return_io ReturnsUndefined)
          else then_io (logger Warn (UnhandledEventType (event_type event)))
                 (return_reply_code 400)))"

text \<open>
  The handler of \<^verbatim>\<open>POST /webhook\<close>. \<open>constructEvent\<close> is the payment SDK's
  \<^verbatim>\<open>stripe.webhooks.constructEvent(body, signature, secret)\<close>, a parameter here:
  \<open>None\<close> when it throws (verification or parsing failed).
\<close>

definition config_ok :: "Config \<Rightarrow> bool" where
  "config_ok config =
     (case stripe config of None \<Rightarrow> False
      | Some s \<Rightarrow> secretKey s \<noteq> [] \<and> webhookSecret s \<noteq> [])"

definition webhook :: "(string \<Rightarrow> string \<Rightarrow> string \<Rightarrow> Event option) \<Rightarrow> Config \<Rightarrow> Request \<Rightarrow>
    completion io" where
  "webhook constructEvent config request =
     (if \<not> config_ok config
      then then_io (logger Error ConfigNotSet) (return_reply_code 503)
      else if \<not> truthy (rawBody request)
      then then_io (logger Error EmptyBody) (return_reply_code 400)
      else if \<not> truthy (stripe_signature request)
      then then_io (logger Error NoSignature) (return_reply_code 400)
      else
        (case constructEvent (the (rawBody request)) (the (stripe_signature request))
                (webhookSecret (the (stripe config))) of
           None \<Rightarrow> then_io (logger Error VerificationFailed) (return_reply_code 400)
         | Some event \<Rightarrow> handle_event event))"

section \<open>What the client receives\<close>

text \<open>
  The HTTP framework that calls the handler is an external library and not part of the
  source at hand. What it makes of the three ways the handler can end is its contract
  for an async route handler:
  \<^item> the handler throws: the framework's error handling answers; the status it sends
    depends on the error and on the status the reply holds, and is the parameter
    \<open>errorStatus\<close> here;
  \<^item> the handler returns \<^verbatim>\<open>undefined\<close> with the reply not sent: the framework sends
    the reply, with the status the reply holds (this handler returns \<^verbatim>\<open>undefined\<close>
    only after it has set 204);
  \<^item> the handler returns the reply object: the returned promise follows the reply,
    which is settled when the response has been sent; the framework sends nothing
    on its own, and as the handler never calls \<^verbatim>\<open>reply.send\<close> no response is sent.
  \<open>default_error_status\<close> is the rule the framework's reference gives for an error
  that carries no status code of its own, as every error this handler can throw: when
  the status of the reply is below 400 the error is answered with 500. The theorems
  hold for every \<open>errorStatus\<close>; only one counterexample instantiates it.
\<close>

datatype response = Answered nat | Unanswered

definition http_response :: "(error \<Rightarrow> nat \<Rightarrow> nat) \<Rightarrow> (error + completion) \<times> world \<Rightarrow> response" where
  "http_response errorStatus r =
     (case fst r of
        Inl e \<Rightarrow> Answered (errorStatus e (statusCode (snd r)))
      | Inr ReturnsUndefined \<Rightarrow> Answered (statusCode (snd r))
      | Inr ReturnsReply \<Rightarrow> Unanswered)"

definition default_error_status :: "error \<Rightarrow> nat \<Rightarrow> nat" where
  "default_error_status e n = (if 400 \<le> n then n else 500)"

section \<open>Observations on a run\<close>

definition is_write :: "effect \<Rightarrow> bool" where
  "is_write e = (case e of RepoUpdateUser _ _ \<Rightarrow> True | Assign _ _ \<Rightarrow> True
                 | Unassign _ _ \<Rightarrow> True | Publish _ _ \<Rightarrow> True | _ \<Rightarrow> False)"

definition is_repo_access :: "effect \<Rightarrow> bool" where
  "is_repo_access e = (case e of RepoRead _ \<Rightarrow> True | RepoUpdateUser _ _ \<Rightarrow> True | _ \<Rightarrow> False)"

text \<open>The effects a run adds to the trace.\<close>

definition new_effects :: "world \<Rightarrow> world \<Rightarrow> effect list" where
  "new_effects w w' = drop (length (trace w)) (trace w')"

text \<open>The persisted data is the same in both worlds.\<close>

definition same_data :: "world \<Rightarrow> world \<Rightarrow> bool" where
  "same_data w w' =
     (userProfiles w' = userProfiles w \<and> users w' = users w \<and>
      subscriptionPlans w' = subscriptionPlans w \<and> roleAssignments w' = roleAssignments w)"

text \<open>The roles of the plan catalogue, those of them a user holds, and the role tied
  to the plan the user row refers to (none when the reference is null or dangling).\<close>

definition catalogue_roles :: "world \<Rightarrow> string set" where
  "catalogue_roles w = set (map roleId (subscriptionPlans w))"

definition subscription_roles :: "world \<Rightarrow> string \<Rightarrow> string set" where
  "subscription_roles w u = set (roles_of w u) \<inter> catalogue_roles w"

definition plan_role :: "world \<Rightarrow> string \<Rightarrow> string set" where
  "plan_role w u =
     (case find (\<lambda>x. user_id x = u) (users w) of
        None \<Rightarrow> {}
      | Some usr \<Rightarrow>
          (case subscriptionPlanId usr of
             None \<Rightarrow> {}
           | Some i \<Rightarrow>
               (case find (\<lambda>x. plan_id x = i) (subscriptionPlans w) of
                  None \<Rightarrow> {}
                | Some p \<Rightarrow> {roleId p})))"

text \<open>The lookups every transition starts with succeed: the event's customer has the
  profile \<open>prof\<close>, whose user row is \<open>usr\<close>, and the first price of the subscription
  is the price of the plan \<open>plan\<close>.\<close>

definition resolves :: "Event \<Rightarrow> world \<Rightarrow> MiUserProfile \<Rightarrow> MiUser \<Rightarrow> MiSubscriptionPlan \<Rightarrow> bool" where
  "resolves ev w prof usr plan =
     (find (\<lambda>p. stripeCustomerId p = Some (customer (data_object ev))) (userProfiles w) = Some prof
      \<and> find (\<lambda>x. user_id x = userId prof) (users w) = Some usr
      \<and> (case items_data (data_object ev) of
            [] \<Rightarrow> False
          | price # _ \<Rightarrow> find (\<lambda>x. stripePriceId x = price) (subscriptionPlans w) = Some plan))"

section \<open>Pure descriptions of the role reconciliation\<close>

text \<open>The effects of the loop \<open>unassign_others\<close>, the assignments it removes, and the
  assignment and effects of \<open>assign_if_absent\<close>; the run lemmas below relate them to the
  handler's code.\<close>

fun others_trace :: "string \<Rightarrow> string list \<Rightarrow> string \<Rightarrow> string list \<Rightarrow> effect list" where
  "others_trace u ids r [] = []"
| "others_trace u ids r (role # roles) =
     (if role \<in> set ids \<and> role \<noteq> r
      then [Unassign u role, Log Info (RoleUnassigned u role Update)] else [])
     @ others_trace u ids r roles"

definition stale :: "string \<Rightarrow> string list \<Rightarrow> string \<Rightarrow> string list \<Rightarrow> string \<times> string \<Rightarrow> bool" where
  "stale u ids r roles a = (fst a = u \<and> snd a \<in> set roles \<and> snd a \<in> set ids \<and> snd a \<noteq> r)"

definition granted :: "string list \<Rightarrow> string \<Rightarrow> string \<Rightarrow> (string \<times> string) list" where
  "granted roles u r = (if r \<in> set roles then [] else [(u, r)])"

definition grant_trace :: "event_kind \<Rightarrow> string \<Rightarrow> string \<Rightarrow> string list \<Rightarrow> effect list" where
  "grant_trace k u r roles = (if r \<in> set roles then [] else [Assign u r, Log Info (RoleAssigned u r k)])"

text \<open>A run of the creation transition that found the subscription already stored: it
  returns, leaves the data as it is, writes nothing and logs one line.\<close>

definition is_log :: "effect \<Rightarrow> bool" where
  "is_log e = (case e of Log _ _ \<Rightarrow> True | _ \<Rightarrow> False)"

definition created_noop :: "Event \<Rightarrow> world \<Rightarrow> string \<Rightarrow> bool" where
  "created_noop ev w u =
     (fst (handle_event ev w) = Inr ReturnsUndefined
      \<and> same_data w (snd (handle_event ev w))
      \<and> filter is_write (new_effects w (snd (handle_event ev w))) = []
      \<and> filter is_log (new_effects w (snd (handle_event ev w))) = [Log Info (SubscriptionExists u)])"



text \<open>The plan reference of a user row is null or the id of a plan of the catalogue.\<close>

definition plan_reference_ok :: "world \<Rightarrow> MiUser \<Rightarrow> bool" where
  "plan_reference_ok w usr =
     (case subscriptionPlanId usr of
        None \<Rightarrow> True
      | Some i \<Rightarrow> find (\<lambda>x. plan_id x = i) (subscriptionPlans w) \<noteq> None)"

text \<open>The role removals and the role assignments among the effects of a run.\<close>

definition is_unassign :: "effect \<Rightarrow> bool" where
  "is_unassign e = (case e of Unassign _ _ \<Rightarrow> True | _ \<Rightarrow> False)"

definition is_assign :: "effect \<Rightarrow> bool" where
  "is_assign e = (case e of Assign _ _ \<Rightarrow> True | _ \<Rightarrow> False)"

text \<open>The row refers to a plan other than the event's (the second branch of the update
  transition), and the runs that reconcile roles: a creation for a user without stored
  subscription id, an update past the guard on one of its three role branches, both
  with status active, and a deletion past the guard.\<close>

definition plan_changes :: "MiUser \<Rightarrow> MiSubscriptionPlan \<Rightarrow> bool" where
  "plan_changes usr plan =
     (truthy (subscriptionPlanId usr) \<and> subscriptionPlanId usr \<noteq> Some (plan_id plan))"

definition reconciles :: "Event \<Rightarrow> MiUser \<Rightarrow> MiSubscriptionPlan \<Rightarrow> bool" where
  "reconciles ev usr plan =
     (if event_type ev = ''customer.subscription.created''
      then stripeSubscriptionId usr = None \<and> status (data_object ev) = ''active''
      else if event_type ev = ''customer.subscription.updated''
      then \<not> foreign usr (data_object ev) \<and> status (data_object ev) = ''active''
           \<and> (\<not> truthy (subscriptionPlanId usr) \<or> plan_changes usr plan
                \<or> (case previous_attributes ev of None \<Rightarrow> False | Some p \<Rightarrow> truthy (prev_status p)))
      else event_type ev = ''customer.subscription.deleted'' \<and> \<not> foreign usr (data_object ev))"

text \<open>The catalogue roles a user may hold before a reconciling run for the run to
  leave exactly the role of the new plan reference: any for a first-plan update, which
  unassigns every other catalogue role itself; the event plan's role and the stored
  plan's role for the other updates; the event plan's role otherwise.\<close>

definition tolerated :: "Event \<Rightarrow> world \<Rightarrow> MiUser \<Rightarrow> MiSubscriptionPlan \<Rightarrow> string set" where
  "tolerated ev w usr plan =
     (if event_type ev = ''customer.subscription.updated''
      then (if \<not> truthy (subscriptionPlanId usr) then UNIV
            else insert (roleId plan) (plan_role w (user_id usr)))
      else {roleId plan})"

section \<open>A small installation\<close>

text \<open>Three plans, two of them for the same role, and one customer; the theorems
  below are instantiated on it.\<close>

definition ex_basic :: MiSubscriptionPlan where
  "ex_basic = \<lparr>plan_id = ''p1'', stripePriceId = ''price1'', roleId = ''r1''\<rparr>"

definition ex_pro :: MiSubscriptionPlan where
  "ex_pro = \<lparr>plan_id = ''p2'', stripePriceId = ''price2'', roleId = ''r2''\<rparr>"

definition ex_yearly :: MiSubscriptionPlan where
  "ex_yearly = \<lparr>plan_id = ''p3'', stripePriceId = ''price3'', roleId = ''r1''\<rparr>"

definition ex_profile :: MiUserProfile where
  "ex_profile = \<lparr>userId = ''u1'', stripeCustomerId = Some ''cus1''\<rparr>"

definition ex_user :: "string option \<Rightarrow> string option \<Rightarrow> MiUser" where
  "ex_user plan sub =
     \<lparr>user_id = ''u1'', subscriptionStatus = ''none'', subscriptionPlanId = plan,
      stripeSubscriptionId = sub\<rparr>"

definition ex_world :: "MiUser \<Rightarrow> string list \<Rightarrow> world" where
  "ex_world usr roles =
     \<lparr>userProfiles = [ex_profile], users = [usr], subscriptionPlans = [ex_basic, ex_pro, ex_yearly],
      roleAssignments = map (Pair ''u1'') roles, statusCode = 200, trace = []\<rparr>"

definition ex_event :: "string \<Rightarrow> string \<Rightarrow> string \<Rightarrow> Event" where
  "ex_event type st price =
     \<lparr>event_type = type,
      data_object = \<lparr>sub_id = ''sub1'', customer = ''cus1'', status = st,
                     cancel_at_period_end = False, items_data = [price]\<rparr>,
      previous_attributes = None\<rparr>"

definition ex_config :: Config where
  "ex_config = \<lparr>stripe = Some \<lparr>secretKey = ''sk'', webhookSecret = ''whsec''\<rparr>\<rparr>"

definition ex_request :: Request where
  "ex_request = \<lparr>rawBody = Some ''{}'', stripe_signature = Some ''t=1,v1=0''\<rparr>"

section \<open>Proof tools\<close>

lemmas io_defs = return_io_def throw_def bind_io_def then_io_def emit_def logger_def reply_code_def
  return_reply_code_def

lemmas ex_defs = ex_basic_def ex_pro_def ex_yearly_def ex_profile_def ex_user_def ex_world_def ex_event_def
  ex_config_def ex_request_def

lemmas run_defs = handle_event_def preprocessEvent_def profile_findOneBy_stripeCustomerId_def
  first_price_def plan_findOneByOrFail_stripePriceId_def plan_findOneByOrFail_id_def plan_find_def
  user_findOneByOrFail_id_def orFail_def getUserRoles_def user_update_def unassign_def
  publishMainStream_def io_defs

lemmas eval_defs = run_defs subscription_created_def subscription_updated_def subscription_deleted_def
  update_roles_def persist_update_def assign_if_absent_def assign_def foreign_def truthy_def
  roles_of_def apply_patch_def

section \<open>What a run of each transition is\<close>

text \<open>Each lemma gives the result and the final world of a piece of the handler under
  the conditions that select one of its paths.\<close>

lemma unassign_others_run:
  "unassign_others u ids r roles w =
     (Inr (), w\<lparr>roleAssignments := filter (\<lambda>a. \<not> stale u ids r roles a) (roleAssignments w),
                trace := trace w @ others_trace u ids r roles\<rparr>)"
proof (induction roles arbitrary: w)
  case Nil
  show ?case by (simp add: return_io_def stale_def)
next
  case (Cons role roles)
  have eq: "role \<in> set ids \<Longrightarrow> role \<noteq> r \<Longrightarrow>
      (\<lambda>a. a \<noteq> (u, role) \<and> \<not> stale u ids r roles a) = (\<lambda>a. \<not> stale u ids r (role # roles) a)"
    by (auto simp: stale_def fun_eq_iff)
  have eq2: "\<not> (role \<in> set ids \<and> role \<noteq> r) \<Longrightarrow>
      (\<lambda>a. \<not> stale u ids r roles a) = (\<lambda>a. \<not> stale u ids r (role # roles) a)"
    by (auto simp: stale_def fun_eq_iff)
  show ?case
  proof (cases "role \<in> set ids \<and> role \<noteq> r")
    case True
    have "unassign_others u ids r (role # roles) w =
        unassign_others u ids r roles
          (w\<lparr>roleAssignments := filter (\<lambda>a. a \<noteq> (u, role)) (roleAssignments w),
             trace := trace w @ [Unassign u role, Log Info (RoleUnassigned u role Update)]\<rparr>)"
      using True by (simp add: io_defs unassign_def)
    also have "\<dots> = (Inr (), w\<lparr>roleAssignments :=
          filter (\<lambda>a. a \<noteq> (u, role) \<and> \<not> stale u ids r roles a) (roleAssignments w),
        trace := trace w @ others_trace u ids r (role # roles)\<rparr>)"
      using True by (simp add: Cons.IH)
    finally show ?thesis
      using eq True by simp
  next
    case False
    have "unassign_others u ids r (role # roles) w = unassign_others u ids r roles w"
      using False by (auto simp add: io_defs)
    also have "\<dots> = (Inr (), w\<lparr>roleAssignments :=
          filter (\<lambda>a. \<not> stale u ids r roles a) (roleAssignments w),
        trace := trace w @ others_trace u ids r (role # roles)\<rparr>)"
      using False by (auto simp add: Cons.IH)
    finally show ?thesis
      using eq2 [OF False] by simp
  qed
qed

lemma assign_if_absent_run:
  assumes "(u, r) \<in> set (roleAssignments w) \<longrightarrow> r \<in> set roles"
  shows "assign_if_absent k u r roles w =
    (Inr (), w\<lparr>roleAssignments := roleAssignments w @ granted roles u r,
               trace := trace w @ grant_trace k u r roles\<rparr>)"
  using assms by (auto simp: assign_if_absent_def assign_def io_defs granted_def grant_trace_def)

lemma held_iff: "(u, r) \<in> set (roleAssignments w) \<longleftrightarrow> r \<in> set (roles_of w u)"
  by (force simp: roles_of_def)

lemma roles_of_frame [simp]:
  "roles_of (trace_update f w) u = roles_of w u"
  "roles_of (statusCode_update g w) u = roles_of w u"
  "roles_of (users_update h w) u = roles_of w u"
  by (simp_all add: roles_of_def)

lemma created_run:
  assumes ty: "event_type ev = ''customer.subscription.created''"
    and res: "resolves ev w prof usr plan"
    and fresh: "stripeSubscriptionId usr = None"
  shows "handle_event ev w =
    (Inr ReturnsUndefined, w\<lparr>statusCode := 204,
       roleAssignments := roleAssignments w @
         (if status (data_object ev) = ''active''
          then granted (roles_of w (userId prof)) (userId prof) (roleId plan) else []),
       users := map (\<lambda>x. if user_id x = userId prof
                  then apply_patch \<lparr>set_subscriptionStatus = status (data_object ev),
                         set_subscriptionPlanId = Some (plan_id plan),
                         set_stripeSubscriptionId = Some (Some (sub_id (data_object ev)))\<rparr> x
                  else x) (users w),
       trace := trace w @
         [RepoRead (ProfileByCustomer (customer (data_object ev))), ReplyCode 204,
          RepoRead (PlanByPrice (stripePriceId plan)), RepoRead (UserById (userId prof))] @
         (if status (data_object ev) = ''active''
          then GetUserRoles (userId prof) #
               grant_trace Creation (userId prof) (roleId plan) (roles_of w (userId prof))
          else []) @
         [RepoUpdateUser (userId prof)
            \<lparr>set_subscriptionStatus = status (data_object ev),
             set_subscriptionPlanId = Some (plan_id plan),
             set_stripeSubscriptionId = Some (Some (sub_id (data_object ev)))\<rparr>,
          Publish (userId prof) ''meUpdated'']\<rparr>)"
proof -
  obtain price rest where items: "items_data (data_object ev) = price # rest"
    and plan: "find (\<lambda>x. stripePriceId x = price) (subscriptionPlans w) = Some plan"
    using res by (auto simp: resolves_def split: list.splits)
  have price: "stripePriceId plan = price"
    using plan by (auto simp: find_Some_iff)
  have prof: "find (\<lambda>p. stripeCustomerId p = Some (customer (data_object ev))) (userProfiles w) = Some prof"
    and usr: "find (\<lambda>x. user_id x = userId prof) (users w) = Some usr"
    using res by (auto simp: resolves_def)
  show ?thesis
    using ty items plan prof usr fresh price
    by (simp add: handle_event_def preprocessEvent_def profile_findOneBy_stripeCustomerId_def
        subscription_created_def first_price_def plan_findOneByOrFail_stripePriceId_def
        user_findOneByOrFail_id_def orFail_def getUserRoles_def user_update_def
        publishMainStream_def io_defs assign_if_absent_run held_iff)
qed

lemma resolvesD:
  assumes "resolves ev w prof usr plan"
  shows "find (\<lambda>p. stripeCustomerId p = Some (customer (data_object ev))) (userProfiles w) = Some prof"
    and "find (\<lambda>x. user_id x = userId prof) (users w) = Some usr"
    and "user_id usr = userId prof"
    and "\<exists>rest. items_data (data_object ev) = stripePriceId plan # rest"
    and "find (\<lambda>x. stripePriceId x = stripePriceId plan) (subscriptionPlans w) = Some plan"
    and "plan \<in> set (subscriptionPlans w)"
  using assms by (auto simp: resolves_def find_Some_iff split: list.splits)

lemma not_held_filter:
  "r \<notin> set (roles_of w u) \<Longrightarrow> filter (\<lambda>a. a \<noteq> (u, r)) (roleAssignments w) = roleAssignments w"
  by (auto simp: held_iff [symmetric] filter_id_conv)

lemma deleted_run:
  assumes ty: "event_type ev = ''customer.subscription.deleted''"
    and res: "resolves ev w prof usr plan"
    and own: "\<not> foreign usr (data_object ev)"
  shows "handle_event ev w =
    (Inr ReturnsUndefined, w\<lparr>statusCode := 204,
       roleAssignments := filter (\<lambda>a. a \<noteq> (userId prof, roleId plan)) (roleAssignments w),
       users := map (\<lambda>x. if user_id x = userId prof
                  then apply_patch \<lparr>set_subscriptionStatus = status (data_object ev),
                         set_subscriptionPlanId = None,
                         set_stripeSubscriptionId = Some None\<rparr> x
                  else x) (users w),
       trace := trace w @
         [RepoRead (ProfileByCustomer (customer (data_object ev))), ReplyCode 204,
          RepoRead (PlanByPrice (stripePriceId plan)), RepoRead (UserById (userId prof)),
          GetUserRoles (userId prof)] @
         (if roleId plan \<in> set (roles_of w (userId prof))
          then [Unassign (userId prof) (roleId plan),
                Log Info (RoleUnassigned (userId prof) (roleId plan) Deletion)]
          else []) @
         [RepoUpdateUser (userId prof)
            \<lparr>set_subscriptionStatus = status (data_object ev),
             set_subscriptionPlanId = None,
             set_stripeSubscriptionId = Some None\<rparr>,
          Publish (userId prof) ''meUpdated'']\<rparr>)"
proof -
  obtain rest where items: "items_data (data_object ev) = stripePriceId plan # rest"
    using resolvesD(4) [OF res] by blast
  show ?thesis
    using ty items own resolvesD(1,2,5) [OF res]
    by (simp add: run_defs subscription_deleted_def not_held_filter)
qed

lemma update_roles_first_plan:
  assumes "\<not> truthy (subscriptionPlanId usr)"
  shows "update_roles usr sub prev plan w =
    (Inr (), w\<lparr>roleAssignments :=
         filter (\<lambda>a. \<not> stale (user_id usr) (map roleId (subscriptionPlans w)) (roleId plan)
                        (roles_of w (user_id usr)) a) (roleAssignments w)
         @ granted (roles_of w (user_id usr)) (user_id usr) (roleId plan),
       trace := trace w @ [RepoRead AllPlans, GetUserRoles (user_id usr)] @
         others_trace (user_id usr) (map roleId (subscriptionPlans w)) (roleId plan)
           (roles_of w (user_id usr)) @
         grant_trace Update (user_id usr) (roleId plan) (roles_of w (user_id usr))\<rparr>)"
  using assms
  by (simp add: update_roles_def run_defs unassign_others_run assign_if_absent_run held_iff)

lemma update_roles_plan_change:
  assumes "subscriptionPlanId usr = Some i" and "i \<noteq> []" and "plan_id plan \<noteq> i"
    and "find (\<lambda>x. plan_id x = i) (subscriptionPlans w) = Some old"
  shows "update_roles usr sub prev plan w =
    (Inr (), w\<lparr>roleAssignments :=
         filter (\<lambda>a. a \<noteq> (user_id usr, roleId old)) (roleAssignments w)
         @ granted (roles_of w (user_id usr)) (user_id usr) (roleId plan),
       trace := trace w @ [RepoRead (PlanById i), GetUserRoles (user_id usr)] @
         (if roleId old \<in> set (roles_of w (user_id usr))
          then [Unassign (user_id usr) (roleId old),
                Log Info (RoleUnassigned (user_id usr) (roleId old) Update)]
          else []) @
         grant_trace Update (user_id usr) (roleId plan) (roles_of w (user_id usr))\<rparr>)"
  using assms
  by (simp add: update_roles_def run_defs truthy_def assign_if_absent_run held_iff not_held_filter)

lemma update_roles_status_change:
  assumes "subscriptionPlanId usr = Some (plan_id plan)" and "plan_id plan \<noteq> []"
    and "prev = Some p" and "truthy (prev_status p)"
  shows "update_roles usr sub prev plan w =
    (Inr (), w\<lparr>roleAssignments :=
         roleAssignments w @ granted (roles_of w (user_id usr)) (user_id usr) (roleId plan),
       trace := trace w @ GetUserRoles (user_id usr) #
         grant_trace Update (user_id usr) (roleId plan) (roles_of w (user_id usr))\<rparr>)"
  using assms
  by (simp add: update_roles_def run_defs truthy_def assign_if_absent_run held_iff)

lemma update_roles_unchanged:
  assumes "subscriptionPlanId usr = Some (plan_id plan)" and "plan_id plan \<noteq> []"
    and "\<not> (case prev of None \<Rightarrow> False | Some p \<Rightarrow> truthy (prev_status p))"
  shows "update_roles usr sub prev plan w = (Inr (), w)"
  using assms
  by (simp add: update_roles_def run_defs truthy_def)

lemma updated_active_run:
  assumes ty: "event_type ev = ''customer.subscription.updated''"
    and res: "resolves ev w prof usr plan"
    and own: "\<not> foreign usr (data_object ev)"
    and act: "status (data_object ev) = ''active''"
    and roles: "update_roles usr (data_object ev) (previous_attributes ev) plan
        (w\<lparr>statusCode := 204, trace := trace w @
           [RepoRead (ProfileByCustomer (customer (data_object ev))), ReplyCode 204,
            RepoRead (UserById (userId prof)), RepoRead (PlanByPrice (stripePriceId plan))]\<rparr>)
        = (Inr (), w2)"
  shows "handle_event ev w =
    (Inr ReturnsUndefined, w2\<lparr>users := map (\<lambda>x. if user_id x = userId prof
                  then apply_patch \<lparr>set_subscriptionStatus = ''active'',
                         set_subscriptionPlanId = Some (plan_id plan),
                         set_stripeSubscriptionId =
                           (if truthy (stripeSubscriptionId usr) then None
                            else Some (Some (sub_id (data_object ev))))\<rparr> x
                  else x) (users w2),
       trace := trace w2 @
         [RepoUpdateUser (userId prof)
            \<lparr>set_subscriptionStatus = ''active'',
             set_subscriptionPlanId = Some (plan_id plan),
             set_stripeSubscriptionId =
               (if truthy (stripeSubscriptionId usr) then None
                else Some (Some (sub_id (data_object ev))))\<rparr>,
          Publish (userId prof) ''meUpdated'']\<rparr>)"
proof -
  obtain rest where items: "items_data (data_object ev) = stripePriceId plan # rest"
    using resolvesD(4) [OF res] by blast
  show ?thesis
    using ty items own act roles resolvesD(1,2,3,5) [OF res]
    by (simp add: run_defs subscription_updated_def persist_update_def)
qed

lemma updated_inactive_run:
  assumes ty: "event_type ev = ''customer.subscription.updated''"
    and res: "resolves ev w prof usr plan"
    and own: "\<not> foreign usr (data_object ev)"
    and act: "status (data_object ev) \<noteq> ''active''"
    and cancel: "\<not> cancel_at_period_end (data_object ev)"
  shows "handle_event ev w =
    (Inr ReturnsUndefined, w\<lparr>statusCode := 204,
       users := map (\<lambda>x. if user_id x = userId prof
                  then apply_patch \<lparr>set_subscriptionStatus = status (data_object ev),
                         set_subscriptionPlanId =
                           (if status (data_object ev) \<noteq> ''incomplete_expired''
                            then Some (plan_id plan) else None),
                         set_stripeSubscriptionId =
                           (if status (data_object ev) \<noteq> ''incomplete_expired''
                            then (if truthy (stripeSubscriptionId usr) then None
                                  else Some (Some (sub_id (data_object ev))))
                            else Some None)\<rparr> x
                  else x) (users w),
       trace := trace w @
         [RepoRead (ProfileByCustomer (customer (data_object ev))), ReplyCode 204,
          RepoRead (UserById (userId prof)), RepoRead (PlanByPrice (stripePriceId plan)),
          RepoUpdateUser (userId prof)
            \<lparr>set_subscriptionStatus = status (data_object ev),
             set_subscriptionPlanId =
               (if status (data_object ev) \<noteq> ''incomplete_expired''
                then Some (plan_id plan) else None),
             set_stripeSubscriptionId =
               (if status (data_object ev) \<noteq> ''incomplete_expired''
                then (if truthy (stripeSubscriptionId usr) then None
                      else Some (Some (sub_id (data_object ev))))
                else Some None)\<rparr>,
          Publish (userId prof) ''meUpdated'']\<rparr>)"
proof -
  obtain rest where items: "items_data (data_object ev) = stripePriceId plan # rest"
    using resolvesD(4) [OF res] by blast
  show ?thesis
    using ty items own act cancel resolvesD(1,2,3,5) [OF res]
    by (simp add: run_defs subscription_updated_def persist_update_def)
qed

lemma created_existing_run:
  assumes ty: "event_type ev = ''customer.subscription.created''"
    and res: "resolves ev w prof usr plan"
    and old: "stripeSubscriptionId usr \<noteq> None"
  shows "handle_event ev w =
    (Inr ReturnsUndefined, w\<lparr>statusCode := 204,
       trace := trace w @
         [RepoRead (ProfileByCustomer (customer (data_object ev))), ReplyCode 204,
          RepoRead (PlanByPrice (stripePriceId plan)), RepoRead (UserById (userId prof)),
          Log Info (SubscriptionExists (userId prof))]\<rparr>)"
proof -
  obtain rest where items: "items_data (data_object ev) = stripePriceId plan # rest"
    using resolvesD(4) [OF res] by blast
  show ?thesis
    using ty items old resolvesD(1,2,3,5) [OF res]
    by (auto simp add: run_defs subscription_created_def)
qed

lemma created_noop_existing:
  assumes "event_type ev = ''customer.subscription.created''"
    and "resolves ev w prof usr plan"
    and "stripeSubscriptionId usr \<noteq> None"
  shows "created_noop ev w (userId prof)"
  by (simp add: created_noop_def created_existing_run [OF assms] same_data_def new_effects_def
      is_write_def is_log_def)

lemma find_map_update:
  "find (\<lambda>x. user_id x = u) xs = Some usr \<Longrightarrow> (\<And>x. user_id (f x) = user_id x) \<Longrightarrow>
   find (\<lambda>x. user_id x = u) (map (\<lambda>x. if user_id x = u then f x else x) xs) = Some (f usr)"
  by (induction xs) (auto split: if_splits)

lemma user_id_apply_patch [simp]: "user_id (apply_patch p x) = user_id x"
  by (simp add: apply_patch_def)

lemma created_resolves_after:
  assumes ty: "event_type ev = ''customer.subscription.created''"
    and res: "resolves ev w prof usr plan"
    and fresh: "stripeSubscriptionId usr = None"
  shows "resolves ev (snd (handle_event ev w)) prof
           (apply_patch \<lparr>set_subscriptionStatus = status (data_object ev),
                         set_subscriptionPlanId = Some (plan_id plan),
                         set_stripeSubscriptionId = Some (Some (sub_id (data_object ev)))\<rparr> usr) plan"
  using res resolvesD(2) [OF res]
  by (auto simp add: created_run [OF assms] resolves_def find_map_update split: list.splits)

lemma webhook_verified:
  assumes "config_ok config"
    and "rawBody request = Some body" and "body \<noteq> []"
    and "stripe_signature request = Some signature" and "signature \<noteq> []"
    and "constructEvent body signature (webhookSecret (the (stripe config))) = Some ev"
  shows "webhook constructEvent config request = handle_event ev"
  using assms by (simp add: webhook_def truthy_def)

lemma update_roles_ok:
  assumes ref: "plan_changes usr plan \<longrightarrow> plan_reference_ok w usr"
  shows "\<exists>RA T. update_roles usr sub prev plan w =
           (Inr (), w\<lparr>roleAssignments := RA, trace := trace w @ T\<rparr>)"
proof (cases "truthy (subscriptionPlanId usr)")
  case False
  show ?thesis
    unfolding update_roles_first_plan [OF False] by blast
next
  case True
  then obtain i where i: "subscriptionPlanId usr = Some i" "i \<noteq> []"
    by (auto simp: truthy_def split: option.splits)
  show ?thesis
  proof (cases "plan_id plan = i")
    case False
    with True i have "plan_changes usr plan"
      by (auto simp add: plan_changes_def)
    with ref i obtain old where "find (\<lambda>x. plan_id x = i) (subscriptionPlans w) = Some old"
      by (auto simp: plan_reference_ok_def)
    from update_roles_plan_change [OF i False this] show ?thesis by blast
  next
    case same: True
    show ?thesis
    proof (cases "case prev of None \<Rightarrow> False | Some p \<Rightarrow> truthy (prev_status p)")
      case True
      then obtain p where "prev = Some p" "truthy (prev_status p)"
        by (auto split: option.splits)
      from update_roles_status_change [OF _ _ this] i same show ?thesis by blast
    next
      case False
      have "update_roles usr sub prev plan w = (Inr (), w)"
        using update_roles_unchanged [OF _ _ False] i same by blast
      then have "update_roles usr sub prev plan w =
          (Inr (), w\<lparr>roleAssignments := roleAssignments w, trace := trace w @ []\<rparr>)"
        by simp
      then show ?thesis by blast
    qed
  qed
qed

lemma deleted_foreign_run:
  assumes ty: "event_type ev = ''customer.subscription.deleted''"
    and res: "resolves ev w prof usr plan"
    and other: "foreign usr (data_object ev)"
  shows "handle_event ev w =
    (Inr ReturnsUndefined, w\<lparr>statusCode := 204,
       trace := trace w @
         [RepoRead (ProfileByCustomer (customer (data_object ev))), ReplyCode 204,
          RepoRead (PlanByPrice (stripePriceId plan)), RepoRead (UserById (userId prof))]\<rparr>)"
proof -
  obtain rest where items: "items_data (data_object ev) = stripePriceId plan # rest"
    using resolvesD(4) [OF res] by blast
  show ?thesis
    using ty items other resolvesD(1,2,5) [OF res]
    by (simp add: run_defs subscription_deleted_def)
qed

lemma count_roles_of: "count_list (roles_of w u) r = count_list (roleAssignments w) (u, r)"
proof -
  have "count_list (map snd (filter (\<lambda>a. fst a = u) xs)) r = count_list xs (u, r)" for xs
    by (induction xs) auto
  then show ?thesis by (simp add: roles_of_def)
qed

lemma count_list_filter: "count_list (filter P xs) x = (if P x then count_list xs x else 0)"
  by (induction xs) auto

lemma no_assign_in_others_trace: "filter is_assign (others_trace u ids r roles) = []"
  by (induction roles) (simp_all add: is_assign_def)

lemma assign_in_grant_trace:
  "filter is_assign (grant_trace k u r roles) = (if r \<in> set roles then [] else [Assign u r])"
  by (simp add: grant_trace_def is_assign_def)

lemma find_SomeD: "find P xs = Some x \<Longrightarrow> x \<in> set xs \<and> P x"
  by (induction xs) (auto split: if_splits)

lemma find_by_id_distinct:
  "distinct (map plan_id xs) \<Longrightarrow> p \<in> set xs \<Longrightarrow> find (\<lambda>x. plan_id x = plan_id p) xs = Some p"
  by (induction xs) (auto simp: rev_image_eqI)

lemma plan_role_eq:
  assumes "find (\<lambda>x. user_id x = u) (users w) = Some usr"
  shows "plan_role w u =
     (case subscriptionPlanId usr of None \<Rightarrow> {}
      | Some i \<Rightarrow> (case find (\<lambda>x. plan_id x = i) (subscriptionPlans w) of
                    None \<Rightarrow> {} | Some p \<Rightarrow> {roleId p}))"
  using assms by (simp add: plan_role_def)

lemma subscription_roles_eq:
  "subscription_roles w u = {r. (u, r) \<in> set (roleAssignments w)} \<inter> roleId ` set (subscriptionPlans w)"
  by (auto simp add: subscription_roles_def catalogue_roles_def held_iff)

lemma invariant_iff_with_plan:
  assumes "find (\<lambda>x. user_id x = u) (users w') = Some usr'"
    and "find (\<lambda>x. plan_id x = plan_id plan) (subscriptionPlans w') = Some plan"
    and "subscriptionPlanId usr' = Some (plan_id plan)"
  shows "subscription_roles w' u = plan_role w' u \<longleftrightarrow>
     {r. (u, r) \<in> set (roleAssignments w')} \<inter> roleId ` set (subscriptionPlans w') = {roleId plan}"
  using assms by (simp add: plan_role_eq subscription_roles_eq)

lemma invariant_iff_without_plan:
  assumes "find (\<lambda>x. user_id x = u) (users w') = Some usr'"
    and "subscriptionPlanId usr' = None"
  shows "subscription_roles w' u = plan_role w' u \<longleftrightarrow>
     {r. (u, r) \<in> set (roleAssignments w')} \<inter> roleId ` set (subscriptionPlans w') = {}"
  using assms by (simp add: plan_role_eq subscription_roles_eq)

lemma ex_request_ok:
  "config_ok ex_config" "rawBody ex_request = Some ''{}''" "''{}'' \<noteq> ([] :: string)"
  "stripe_signature ex_request = Some ''t=1,v1=0''" "''t=1,v1=0'' \<noteq> ([] :: string)"
  "(\<lambda>_ _ _. Some ev) ''{}'' ''t=1,v1=0'' (webhookSecret (the (stripe ex_config))) = Some ev"
  by (simp_all add: ex_defs config_ok_def)

section \<open>Transitions never set the status\<close>
























section \<open>Rejected requests\<close>

text \<open>
  C7. A request whose signature header is present, but whose verification against the
  raw body and the configured secret fails: the handler logs the failure, sets status
  400 on the reply and neither reads nor writes the data store. It ends with
  \<^verbatim>\<open>return reply.code(400)\<close>: it returns the reply object without having sent it, so
  the 400 is set and no response is sent, whatever the framework does with errors.
\<close>

theorem invalid_signature_not_answered:
  assumes "config_ok config"
    and "rawBody request = Some body" and "body \<noteq> []"
    and "stripe_signature request = Some signature" and "signature \<noteq> []"
    and "constructEvent body signature (webhookSecret (the (stripe config))) = None"
  shows "fst (webhook constructEvent config request w) = Inr ReturnsReply
       \<and> statusCode (snd (webhook constructEvent config request w)) = 400
       \<and> http_response errorStatus (webhook constructEvent config request w) = Unanswered
       \<and> same_data w (snd (webhook constructEvent config request w))
       \<and> new_effects w (snd (webhook constructEvent config request w))
           = [Log Error VerificationFailed, ReplyCode 400]"
  using assms
  by (simp add: webhook_def truthy_def io_defs same_data_def new_effects_def http_response_def)

theorem invalid_signature_not_answered_witness:
  "statusCode (snd (webhook (\<lambda>_ _ _. None) ex_config ex_request
      (ex_world (ex_user None None) []))) = 400
   \<and> http_response default_error_status (webhook (\<lambda>_ _ _. None) ex_config ex_request
        (ex_world (ex_user None None) [])) = Unanswered
   \<and> same_data (ex_world (ex_user None None) [])
        (snd (webhook (\<lambda>_ _ _. None) ex_config ex_request (ex_world (ex_user None None) [])))"
  using invalid_signature_not_answered [where config = ex_config and request = ex_request
      and body = "''{}''" and signature = "''t=1,v1=0''" and constructEvent = "\<lambda>_ _ _. None"
      and errorStatus = default_error_status and w = "ex_world (ex_user None None) []"]
  by (simp add: ex_config_def ex_request_def config_ok_def)

text \<open>
  C5, as amended. A verified event of any other type leaves the data as it is, and its
  only access to the data store is the profile lookup of the preprocessing, which
  comes before the dispatch on the type. When the customer has a profile the run is
  that lookup, the 204, one warning and the setting of status 400, and the handler
  returns the reply object; when it has none the run is the lookup and one warning,
  the handler throws and the status is the one the reply started with. What is sent
  is not part of the statement.
\<close>

theorem unhandled_event_type_400:
  assumes ok: "config_ok config"
    and body: "rawBody request = Some body" "body \<noteq> []"
    and sig: "stripe_signature request = Some signature" "signature \<noteq> []"
    and ev: "constructEvent body signature (webhookSecret (the (stripe config))) = Some ev"
    and ty: "event_type ev \<noteq> ''customer.subscription.created''"
           "event_type ev \<noteq> ''customer.subscription.updated''"
           "event_type ev \<noteq> ''customer.subscription.deleted''"
  shows "same_data w (snd (webhook constructEvent config request w))
       \<and> (case find (\<lambda>p. stripeCustomerId p = Some (customer (data_object ev))) (userProfiles w) of
            Some prof \<Rightarrow>
              fst (webhook constructEvent config request w) = Inr ReturnsReply
              \<and> statusCode (snd (webhook constructEvent config request w)) = 400
              \<and> new_effects w (snd (webhook constructEvent config request w))
                  = [RepoRead (ProfileByCustomer (customer (data_object ev))), ReplyCode 204,
                     Log Warn (UnhandledEventType (event_type ev)), ReplyCode 400]
          | None \<Rightarrow>
              fst (webhook constructEvent config request w) = Inl ProfileNotFound
              \<and> statusCode (snd (webhook constructEvent config request w)) = statusCode w
              \<and> new_effects w (snd (webhook constructEvent config request w))
                  = [RepoRead (ProfileByCustomer (customer (data_object ev))),
                     Log Warn (NoUserProfile (customer (data_object ev)))])"
  using ty
  by (simp add: webhook_verified [where constructEvent = constructEvent, OF ok body sig ev]
      handle_event_def preprocessEvent_def profile_findOneBy_stripeCustomerId_def io_defs
      same_data_def new_effects_def split: option.splits)

theorem unhandled_event_type_400_witness:
  "fst (webhook (\<lambda>_ _ _. Some (ex_event ''foo.bar'' ''active'' ''price1''))
      ex_config ex_request (ex_world (ex_user None None) [])) = Inr ReturnsReply
   \<and> statusCode (snd (webhook (\<lambda>_ _ _. Some (ex_event ''foo.bar'' ''active'' ''price1''))
      ex_config ex_request (ex_world (ex_user None None) []))) = 400
   \<and> new_effects (ex_world (ex_user None None) [])
        (snd (webhook (\<lambda>_ _ _. Some (ex_event ''foo.bar'' ''active'' ''price1''))
           ex_config ex_request (ex_world (ex_user None None) [])))
      = [RepoRead (ProfileByCustomer ''cus1''), ReplyCode 204,
         Log Warn (UnhandledEventType ''foo.bar''), ReplyCode 400]"
proof -
  let ?ev = "ex_event ''foo.bar'' ''active'' ''price1''"
  let ?w = "ex_world (ex_user None None) []"
  have ty: "event_type ?ev \<noteq> ''customer.subscription.created''"
    "event_type ?ev \<noteq> ''customer.subscription.updated''"
    "event_type ?ev \<noteq> ''customer.subscription.deleted''"
    by (simp_all add: ex_defs)
  have t: "event_type ?ev = ''foo.bar''" "customer (data_object ?ev) = ''cus1''"
    by (simp_all add: ex_defs)
  have prof: "find (\<lambda>p. stripeCustomerId p = Some ''cus1'') (userProfiles ?w) = Some ex_profile"
    by (simp add: ex_defs)
  show ?thesis
    using unhandled_event_type_400 [where constructEvent = "\<lambda>_ _ _. Some ?ev" and w = ?w,
        OF ex_request_ok ty]
    by (simp add: prof t)
qed

text \<open>
  C5 as stated says that such an event causes no data-store access. The event
  \<^verbatim>\<open>foo.bar\<close> causes one, the profile lookup.
\<close>

theorem unknown_event_reads_profile_counterexample:
  "event_type (ex_event ''foo.bar'' ''active'' ''price1'') = ''foo.bar''
   \<and> filter is_repo_access (new_effects (ex_world (ex_user None None) [])
        (snd (webhook (\<lambda>_ _ _. Some (ex_event ''foo.bar'' ''active'' ''price1''))
           ex_config ex_request (ex_world (ex_user None None) []))))
      = [RepoRead (ProfileByCustomer ''cus1'')]"
  by (simp add: ex_defs webhook_def config_ok_def eval_defs new_effects_def is_repo_access_def)

section \<open>The acknowledgement\<close>




section \<open>The creation transition\<close>

text \<open>
  C3. A creation event for a user whose row already holds an external subscription id
  (any value but null) makes the handler return after one info log line, with no role
  assignment, no update of the user row and no notification. Hence a creation event
  processed once is a no-op when it is delivered again: whatever the first run did, the
  second run, on the world the first one left, writes nothing.
\<close>

theorem created_already_processed:
  assumes ty: "event_type ev = ''customer.subscription.created''"
    and res: "resolves ev w prof usr plan"
  shows "(stripeSubscriptionId usr \<noteq> None \<longrightarrow> created_noop ev w (userId prof))
       \<and> created_noop ev (snd (handle_event ev w)) (userId prof)"
proof (cases "stripeSubscriptionId usr")
  case None
  have "created_noop ev (snd (handle_event ev w)) (userId prof)"
    by (rule created_noop_existing [OF ty created_resolves_after [OF ty res None]])
       (simp add: apply_patch_def)
  with None show ?thesis by simp
next
  case (Some s)
  then have old: "stripeSubscriptionId usr \<noteq> None" by simp
  have first: "created_noop ev w (userId prof)"
    by (rule created_noop_existing [OF ty res old])
  have "resolves ev (snd (handle_event ev w)) prof usr plan"
    using res by (auto simp add: created_existing_run [OF ty res old] resolves_def split: list.splits)
  then have "created_noop ev (snd (handle_event ev w)) (userId prof)"
    by (rule created_noop_existing [OF ty _ old])
  with first show ?thesis by simp
qed

theorem created_already_processed_witness:
  "created_noop (ex_event ''customer.subscription.created'' ''active'' ''price1'')
     (ex_world (ex_user (Some ''p1'') (Some ''sub1'')) [''r1'']) ''u1''
   \<and> created_noop (ex_event ''customer.subscription.created'' ''active'' ''price1'')
     (snd (handle_event (ex_event ''customer.subscription.created'' ''active'' ''price1'')
        (ex_world (ex_user None None) []))) ''u1''"
proof -
  have ty: "event_type (ex_event ''customer.subscription.created'' ''active'' ''price1'')
      = ''customer.subscription.created''"
    by (simp add: ex_defs)
  have r1: "resolves (ex_event ''customer.subscription.created'' ''active'' ''price1'')
      (ex_world (ex_user (Some ''p1'') (Some ''sub1'')) [''r1'']) ex_profile
      (ex_user (Some ''p1'') (Some ''sub1'')) ex_basic"
    by (simp add: resolves_def ex_defs)
  have r2: "resolves (ex_event ''customer.subscription.created'' ''active'' ''price1'')
      (ex_world (ex_user None None) []) ex_profile (ex_user None None) ex_basic"
    by (simp add: resolves_def ex_defs)
  have u: "userId ex_profile = ''u1''" "stripeSubscriptionId (ex_user (Some ''p1'') (Some ''sub1'')) \<noteq> None"
    by (simp_all add: ex_defs)
  show ?thesis
    using created_already_processed [OF ty r1] created_already_processed [OF ty r2] u
    by simp
qed

section \<open>The update transition\<close>

text \<open>
  C4, as amended. An update event whose subscription id differs from the one stored on
  the user row, when the stored one is neither null nor the empty string, changes
  nothing: profiles, users, plans and role assignments are as before, and the run
  has no role assignment, no role removal, no update and no notification.
\<close>

theorem updated_foreign_event_ignored:
  assumes ty: "event_type ev = ''customer.subscription.updated''"
    and prof: "find (\<lambda>p. stripeCustomerId p = Some (customer (data_object ev))) (userProfiles w) = Some prof"
    and usr: "find (\<lambda>x. user_id x = userId prof) (users w) = Some usr"
    and stored: "stripeSubscriptionId usr = Some s" and "s \<noteq> []"
    and differs: "s \<noteq> sub_id (data_object ev)"
  shows "same_data w (snd (handle_event ev w))
       \<and> filter is_write (new_effects w (snd (handle_event ev w))) = []"
  using assms
  by (auto simp add: run_defs subscription_updated_def foreign_def truthy_def same_data_def
      new_effects_def is_write_def split: list.splits option.splits)

theorem updated_foreign_event_ignored_witness:
  "stripeSubscriptionId (ex_user (Some ''p1'') (Some ''sub0'')) = Some ''sub0''
   \<and> ''sub0'' \<noteq> sub_id (data_object (ex_event ''customer.subscription.updated'' ''active'' ''price2''))
   \<and> same_data (ex_world (ex_user (Some ''p1'') (Some ''sub0'')) [''r1''])
        (snd (handle_event (ex_event ''customer.subscription.updated'' ''active'' ''price2'')
           (ex_world (ex_user (Some ''p1'') (Some ''sub0'')) [''r1''])))"
proof -
  let ?ev = "ex_event ''customer.subscription.updated'' ''active'' ''price2''"
  let ?usr = "ex_user (Some ''p1'') (Some ''sub0'')"
  let ?w = "ex_world ?usr [''r1'']"
  have ty: "event_type ?ev = ''customer.subscription.updated''"
    by (simp add: ex_defs)
  have prof: "find (\<lambda>p. stripeCustomerId p = Some (customer (data_object ?ev))) (userProfiles ?w)
      = Some ex_profile"
    by (simp add: ex_defs)
  have usr: "find (\<lambda>x. user_id x = userId ex_profile) (users ?w) = Some ?usr"
    by (simp add: ex_defs)
  have stored: "stripeSubscriptionId ?usr = Some ''sub0''" and ne: "''sub0'' \<noteq> ([] :: string)"
    and differs: "''sub0'' \<noteq> sub_id (data_object ?ev)"
    by (simp_all add: ex_defs)
  show ?thesis
    using updated_foreign_event_ignored [OF ty prof usr stored ne differs] stored differs
    by simp
qed

text \<open>
  C4 as stated speaks of a stored id that is not null. The guard of the source tests
  the stored id for truthiness, so the empty string does not trigger it: the event is
  processed, a role is assigned and the row is rewritten.
\<close>

theorem updated_empty_stored_id_counterexample:
  "stripeSubscriptionId (ex_user None (Some [])) \<noteq> None
   \<and> stripeSubscriptionId (ex_user None (Some []))
       \<noteq> Some (sub_id (data_object (ex_event ''customer.subscription.updated'' ''active'' ''price1'')))
   \<and> roles_of (ex_world (ex_user None (Some [])) []) ''u1'' = []
   \<and> roles_of (snd (handle_event (ex_event ''customer.subscription.updated'' ''active'' ''price1'')
         (ex_world (ex_user None (Some [])) []))) ''u1'' = [''r1'']
   \<and> users (snd (handle_event (ex_event ''customer.subscription.updated'' ''active'' ''price1'')
         (ex_world (ex_user None (Some [])) [])))
      = [\<lparr>user_id = ''u1'', subscriptionStatus = ''active'', subscriptionPlanId = Some ''p1'',
          stripeSubscriptionId = Some ''sub1''\<rparr>]"
  by (simp add: ex_defs eval_defs)

text \<open>
  C9, as amended. An update event that passes the foreign-event guard and is not the
  pending cancellation (status other than active with \<^verbatim>\<open>cancel_at_period_end\<close>) makes
  the handler return with the user row rewritten: the event's status, the event's plan
  and the event's subscription id, or no plan and no subscription id when the status
  is \<^verbatim>\<open>incomplete_expired\<close>; provided that, when the status is active and the row
  refers to a plan other than the event's, that plan exists.
\<close>

theorem updated_persists_row:
  assumes ty: "event_type ev = ''customer.subscription.updated''"
    and res: "resolves ev w prof usr plan"
    and own: "\<not> foreign usr (data_object ev)"
    and pending: "\<not> (status (data_object ev) \<noteq> ''active'' \<and> cancel_at_period_end (data_object ev))"
    and old: "status (data_object ev) = ''active'' \<and> plan_changes usr plan
        \<longrightarrow> plan_reference_ok w usr"
  shows "fst (handle_event ev w) = Inr ReturnsUndefined
       \<and> find (\<lambda>x. user_id x = userId prof) (users (snd (handle_event ev w)))
           = Some (usr\<lparr>subscriptionStatus := status (data_object ev),
                subscriptionPlanId :=
                  (if status (data_object ev) = ''incomplete_expired'' then None
                   else Some (plan_id plan)),
                stripeSubscriptionId :=
                  (if status (data_object ev) = ''incomplete_expired'' then None
                   else Some (sub_id (data_object ev)))\<rparr>)"
proof -
  note usr = resolvesD(2) [OF res]
  have stored: "truthy (stripeSubscriptionId usr) \<Longrightarrow>
      stripeSubscriptionId usr = Some (sub_id (data_object ev))"
    using own by (simp add: foreign_def)
  show ?thesis
  proof (cases "status (data_object ev) = ''active''")
    case True
    let ?w1 = "w\<lparr>statusCode := 204, trace := trace w @
           [RepoRead (ProfileByCustomer (customer (data_object ev))), ReplyCode 204,
            RepoRead (UserById (userId prof)), RepoRead (PlanByPrice (stripePriceId plan))]\<rparr>"
    have "plan_changes usr plan \<longrightarrow> plan_reference_ok ?w1 usr"
      using old True by (simp add: plan_reference_ok_def split: option.splits)
    from update_roles_ok [OF this] obtain RA T where
      roles: "update_roles usr (data_object ev) (previous_attributes ev) plan ?w1
          = (Inr (), ?w1\<lparr>roleAssignments := RA, trace := trace ?w1 @ T\<rparr>)"
      by blast
    show ?thesis
      using usr True stored
      by (cases "truthy (stripeSubscriptionId usr)")
         (simp_all add: updated_active_run [OF ty res own True roles] find_map_update apply_patch_def)
  next
    case False
    with pending have nc: "\<not> cancel_at_period_end (data_object ev)" by simp
    show ?thesis
      using usr stored
      by (cases "truthy (stripeSubscriptionId usr)")
         (simp_all add: updated_inactive_run [OF ty res own False nc] find_map_update apply_patch_def)
  qed
qed

theorem updated_persists_row_witness:
  "plan_changes (ex_user (Some ''p1'') (Some ''sub1'')) ex_pro
   \<and> find (\<lambda>x. user_id x = userId ex_profile)
      (users (snd (handle_event (ex_event ''customer.subscription.updated'' ''active'' ''price2'')
         (ex_world (ex_user (Some ''p1'') (Some ''sub1'')) [''r1'']))))
     = Some \<lparr>user_id = ''u1'', subscriptionStatus = ''active'', subscriptionPlanId = Some ''p2'',
         stripeSubscriptionId = Some ''sub1''\<rparr>
   \<and> find (\<lambda>x. user_id x = userId ex_profile)
      (users (snd (handle_event (ex_event ''customer.subscription.updated'' ''incomplete_expired'' ''price1'')
         (ex_world (ex_user (Some ''p1'') None) []))))
     = Some \<lparr>user_id = ''u1'', subscriptionStatus = ''incomplete_expired'',
         subscriptionPlanId = None, stripeSubscriptionId = None\<rparr>"
proof -
  let ?ev1 = "ex_event ''customer.subscription.updated'' ''active'' ''price2''"
  let ?usr1 = "ex_user (Some ''p1'') (Some ''sub1'')"
  let ?w1 = "ex_world ?usr1 [''r1'']"
  let ?ev2 = "ex_event ''customer.subscription.updated'' ''incomplete_expired'' ''price1''"
  let ?usr2 = "ex_user (Some ''p1'') None"
  let ?w2 = "ex_world ?usr2 []"
  have ty: "event_type ?ev1 = ''customer.subscription.updated''"
    "event_type ?ev2 = ''customer.subscription.updated''"
    by (simp_all add: ex_defs)
  have res: "resolves ?ev1 ?w1 ex_profile ?usr1 ex_pro" "resolves ?ev2 ?w2 ex_profile ?usr2 ex_basic"
    by (simp_all add: resolves_def ex_defs)
  have own: "\<not> foreign ?usr1 (data_object ?ev1)" "\<not> foreign ?usr2 (data_object ?ev2)"
    by (simp_all add: foreign_def truthy_def ex_defs)
  have pending: "\<not> (status (data_object ?ev1) \<noteq> ''active'' \<and> cancel_at_period_end (data_object ?ev1))"
    "\<not> (status (data_object ?ev2) \<noteq> ''active'' \<and> cancel_at_period_end (data_object ?ev2))"
    by (simp_all add: ex_defs)
  have changes: "plan_changes ?usr1 ex_pro"
    by (simp add: plan_changes_def truthy_def ex_defs)
  have found: "plan_reference_ok ?w1 ?usr1"
    by (simp add: plan_reference_ok_def ex_defs)
  then have old1: "status (data_object ?ev1) = ''active'' \<and> plan_changes ?usr1 ex_pro
      \<longrightarrow> plan_reference_ok ?w1 ?usr1"
    by simp
  have old2: "status (data_object ?ev2) = ''active'' \<and> plan_changes ?usr2 ex_basic
      \<longrightarrow> plan_reference_ok ?w2 ?usr2"
    by (simp add: ex_defs)
  have rows: "?usr1\<lparr>subscriptionStatus := status (data_object ?ev1),
        subscriptionPlanId := (if status (data_object ?ev1) = ''incomplete_expired'' then None
                               else Some (plan_id ex_pro)),
        stripeSubscriptionId := (if status (data_object ?ev1) = ''incomplete_expired'' then None
                               else Some (sub_id (data_object ?ev1)))\<rparr>
      = \<lparr>user_id = ''u1'', subscriptionStatus = ''active'', subscriptionPlanId = Some ''p2'',
         stripeSubscriptionId = Some ''sub1''\<rparr>"
    "?usr2\<lparr>subscriptionStatus := status (data_object ?ev2),
        subscriptionPlanId := (if status (data_object ?ev2) = ''incomplete_expired'' then None
                               else Some (plan_id ex_basic)),
        stripeSubscriptionId := (if status (data_object ?ev2) = ''incomplete_expired'' then None
                               else Some (sub_id (data_object ?ev2)))\<rparr>
      = \<lparr>user_id = ''u1'', subscriptionStatus = ''incomplete_expired'',
         subscriptionPlanId = None, stripeSubscriptionId = None\<rparr>"
    by (simp_all add: ex_defs)
  show ?thesis
    using updated_persists_row [OF ty(1) res(1) own(1) pending(1) old1]
      updated_persists_row [OF ty(2) res(2) own(2) pending(2) old2] changes
    unfolding rows by blast
qed

text \<open>
  C9 as stated asks for nothing about the plan the row refers to. When the status is
  active and the row refers to a plan other than the event's, the source looks the old
  plan up and throws if there is none, before the row is written.
\<close>

theorem dangling_plan_reference_counterexample:
  "event_type (ex_event ''customer.subscription.updated'' ''active'' ''price2'')
      = ''customer.subscription.updated''
   \<and> resolves (ex_event ''customer.subscription.updated'' ''active'' ''price2'')
       (ex_world (ex_user (Some ''p9'') (Some ''sub1'')) []) ex_profile
       (ex_user (Some ''p9'') (Some ''sub1'')) ex_pro
   \<and> \<not> foreign (ex_user (Some ''p9'') (Some ''sub1''))
         (data_object (ex_event ''customer.subscription.updated'' ''active'' ''price2''))
   \<and> \<not> cancel_at_period_end (data_object (ex_event ''customer.subscription.updated'' ''active'' ''price2''))
   \<and> fst (handle_event (ex_event ''customer.subscription.updated'' ''active'' ''price2'')
        (ex_world (ex_user (Some ''p9'') (Some ''sub1'')) [])) = Inl EntityNotFound
   \<and> users (snd (handle_event (ex_event ''customer.subscription.updated'' ''active'' ''price2'')
        (ex_world (ex_user (Some ''p9'') (Some ''sub1'')) [])))
      = [ex_user (Some ''p9'') (Some ''sub1'')]"
  by (simp add: resolves_def ex_defs eval_defs del: set_map set_filter)

text \<open>
  C2, as amended. The user holds the role of the stored plan; an update event with
  status active passes the foreign-event guard and its price is that of another plan
  with another role. Then the handler returns, the new role is held, the old one is
  not, the new role is held as many times as before if it was held and once
  otherwise, no other role was added, and the run assigns the new role only if it was
  not held.
\<close>

theorem updated_plan_change_reconciles:
  assumes ty: "event_type ev = ''customer.subscription.updated''"
    and res: "resolves ev w prof usr plan"
    and own: "\<not> foreign usr (data_object ev)"
    and act: "status (data_object ev) = ''active''"
    and stored: "subscriptionPlanId usr = Some i"
    and old: "find (\<lambda>x. plan_id x = i) (subscriptionPlans w) = Some old"
    and changed: "plan_id plan \<noteq> i"
    and held: "roleId old \<in> set (roles_of w (userId prof))"
    and other_role: "roleId plan \<noteq> roleId old"
  shows "fst (handle_event ev w) = Inr ReturnsUndefined
       \<and> roleId plan \<in> set (roles_of (snd (handle_event ev w)) (userId prof))
       \<and> roleId old \<notin> set (roles_of (snd (handle_event ev w)) (userId prof))
       \<and> count_list (roles_of (snd (handle_event ev w)) (userId prof)) (roleId plan)
           = (if roleId plan \<in> set (roles_of w (userId prof))
              then count_list (roles_of w (userId prof)) (roleId plan) else 1)
       \<and> set (roles_of (snd (handle_event ev w)) (userId prof))
           \<subseteq> insert (roleId plan) (set (roles_of w (userId prof)))
       \<and> filter is_assign (new_effects w (snd (handle_event ev w)))
           = (if roleId plan \<in> set (roles_of w (userId prof)) then []
              else [Assign (userId prof) (roleId plan)])"
proof -
  let ?u = "userId prof"
  let ?w1 = "w\<lparr>statusCode := 204, trace := trace w @
           [RepoRead (ProfileByCustomer (customer (data_object ev))), ReplyCode 204,
            RepoRead (UserById (userId prof)), RepoRead (PlanByPrice (stripePriceId plan))]\<rparr>"
  let ?roles = "roles_of w ?u"
  note uid = resolvesD(3) [OF res]
  have old_in: "roleId old \<in> set (map roleId (subscriptionPlans w))"
    using find_SomeD [OF old] by simp
  have "\<exists>P T. update_roles usr (data_object ev) (previous_attributes ev) plan ?w1 =
          (Inr (), ?w1\<lparr>roleAssignments := filter P (roleAssignments w) @ granted ?roles ?u (roleId plan),
                       trace := trace ?w1 @ T\<rparr>)
        \<and> P (?u, roleId plan) \<and> \<not> P (?u, roleId old)
        \<and> filter is_assign T = (if roleId plan \<in> set ?roles then [] else [Assign ?u (roleId plan)])"
  proof (cases "i = []")
    case True
    then have falsy: "\<not> truthy (subscriptionPlanId usr)"
      using stored by (simp add: truthy_def)
    let ?P = "\<lambda>a. \<not> stale ?u (map roleId (subscriptionPlans w)) (roleId plan) ?roles a"
    let ?T = "[RepoRead AllPlans, GetUserRoles ?u] @
         others_trace ?u (map roleId (subscriptionPlans w)) (roleId plan) ?roles @
         grant_trace Update ?u (roleId plan) ?roles"
    have "update_roles usr (data_object ev) (previous_attributes ev) plan ?w1 =
          (Inr (), ?w1\<lparr>roleAssignments := filter ?P (roleAssignments w) @ granted ?roles ?u (roleId plan),
                       trace := trace ?w1 @ ?T\<rparr>)"
      by (simp add: update_roles_first_plan [OF falsy] uid)
    moreover have "?P (?u, roleId plan)" "\<not> ?P (?u, roleId old)"
      using held other_role old_in by (simp_all add: stale_def)
    moreover have "filter is_assign ?T = (if roleId plan \<in> set ?roles then [] else [Assign ?u (roleId plan)])"
      by (simp add: is_assign_def no_assign_in_others_trace assign_in_grant_trace)
    ultimately show ?thesis by blast
  next
    case False
    have old1: "find (\<lambda>x. plan_id x = i) (subscriptionPlans ?w1) = Some old"
      using old by simp
    let ?P = "\<lambda>a. a \<noteq> (?u, roleId old)"
    let ?T = "[RepoRead (PlanById i), GetUserRoles ?u] @
         (if roleId old \<in> set ?roles
          then [Unassign ?u (roleId old), Log Info (RoleUnassigned ?u (roleId old) Update)]
          else []) @
         grant_trace Update ?u (roleId plan) ?roles"
    have "update_roles usr (data_object ev) (previous_attributes ev) plan ?w1 =
          (Inr (), ?w1\<lparr>roleAssignments := filter ?P (roleAssignments w) @ granted ?roles ?u (roleId plan),
                       trace := trace ?w1 @ ?T\<rparr>)"
      by (simp add: update_roles_plan_change [OF stored False changed old1] uid)
    moreover have "?P (?u, roleId plan)" "\<not> ?P (?u, roleId old)"
      using other_role by simp_all
    moreover have "filter is_assign ?T = (if roleId plan \<in> set ?roles then [] else [Assign ?u (roleId plan)])"
      by (simp add: is_assign_def assign_in_grant_trace)
    ultimately show ?thesis by blast
  qed
  then obtain P T where
    roles: "update_roles usr (data_object ev) (previous_attributes ev) plan ?w1 =
          (Inr (), ?w1\<lparr>roleAssignments := filter P (roleAssignments w) @ granted ?roles ?u (roleId plan),
                       trace := trace ?w1 @ T\<rparr>)"
    and keep: "P (?u, roleId plan)" and drop: "\<not> P (?u, roleId old)"
    and T: "filter is_assign T = (if roleId plan \<in> set ?roles then [] else [Assign ?u (roleId plan)])"
    by blast
  note run = updated_active_run [OF ty res own act roles]
  have after: "roleAssignments (snd (handle_event ev w))
      = filter P (roleAssignments w) @ granted ?roles ?u (roleId plan)"
    by (simp add: run)
  have mem: "r \<in> set (roles_of (snd (handle_event ev w)) ?u) \<longleftrightarrow>
      (?u, r) \<in> set (filter P (roleAssignments w) @ granted ?roles ?u (roleId plan))" for r
    unfolding held_iff [symmetric] after ..
  have c1: "roleId plan \<in> set (roles_of (snd (handle_event ev w)) ?u)"
    unfolding mem using keep by (auto simp add: granted_def held_iff)
  have c2: "roleId old \<notin> set (roles_of (snd (handle_event ev w)) ?u)"
    unfolding mem using drop other_role by (auto simp add: granted_def)
  have c3: "count_list (roles_of (snd (handle_event ev w)) ?u) (roleId plan)
           = (if roleId plan \<in> set ?roles then count_list ?roles (roleId plan) else 1)"
    unfolding count_roles_of after using keep
    by (auto simp add: count_list_filter granted_def held_iff [symmetric] count_list_0_iff)
  have c4: "set (roles_of (snd (handle_event ev w)) ?u) \<subseteq> insert (roleId plan) (set ?roles)"
    using mem by (auto simp add: granted_def held_iff split: if_splits)
  have c5: "filter is_assign (new_effects w (snd (handle_event ev w)))
           = (if roleId plan \<in> set ?roles then [] else [Assign ?u (roleId plan)])"
    using T by (simp add: run new_effects_def is_assign_def)
  show ?thesis
    using c1 c2 c3 c4 c5 by (simp add: run)
qed

theorem updated_plan_change_reconciles_witness:
  "resolves (ex_event ''customer.subscription.updated'' ''active'' ''price2'')
     (ex_world (ex_user (Some ''p1'') (Some ''sub1'')) [''r1'']) ex_profile
     (ex_user (Some ''p1'') (Some ''sub1'')) ex_pro
   \<and> roleId ex_basic \<in> set (roles_of (ex_world (ex_user (Some ''p1'') (Some ''sub1'')) [''r1''])
        (userId ex_profile))
   \<and> roleId ex_pro \<in> set (roles_of
        (snd (handle_event (ex_event ''customer.subscription.updated'' ''active'' ''price2'')
           (ex_world (ex_user (Some ''p1'') (Some ''sub1'')) [''r1'']))) (userId ex_profile))
   \<and> roleId ex_basic \<notin> set (roles_of
        (snd (handle_event (ex_event ''customer.subscription.updated'' ''active'' ''price2'')
           (ex_world (ex_user (Some ''p1'') (Some ''sub1'')) [''r1'']))) (userId ex_profile))"
proof -
  let ?ev = "ex_event ''customer.subscription.updated'' ''active'' ''price2''"
  let ?usr = "ex_user (Some ''p1'') (Some ''sub1'')"
  let ?w = "ex_world ?usr [''r1'']"
  have ty: "event_type ?ev = ''customer.subscription.updated''"
    by (simp add: ex_defs)
  have res: "resolves ?ev ?w ex_profile ?usr ex_pro"
    by (simp add: resolves_def ex_defs)
  have own: "\<not> foreign ?usr (data_object ?ev)"
    and act: "status (data_object ?ev) = ''active''"
    and stored: "subscriptionPlanId ?usr = Some ''p1''"
    and old: "find (\<lambda>x. plan_id x = ''p1'') (subscriptionPlans ?w) = Some ex_basic"
    and changed: "plan_id ex_pro \<noteq> ''p1''"
    and other_role: "roleId ex_pro \<noteq> roleId ex_basic"
    by (simp_all add: foreign_def truthy_def ex_defs)
  have held: "roleId ex_basic \<in> set (roles_of ?w (userId ex_profile))"
    by (simp add: roles_of_def ex_defs)
  show ?thesis
    using updated_plan_change_reconciles [OF ty res own act stored old changed held other_role]
      res held
    by blast
qed

text \<open>
  C2 as stated does not ask that the event passes the foreign-event guard. An update
  event for another subscription than the stored one changes the plan in vain: the
  user keeps the old role and does not get the new one.
\<close>

theorem plan_change_foreign_event_counterexample:
  "resolves (ex_event ''customer.subscription.updated'' ''active'' ''price2'')
     (ex_world (ex_user (Some ''p1'') (Some ''sub0'')) [''r1'']) ex_profile
     (ex_user (Some ''p1'') (Some ''sub0'')) ex_pro
   \<and> status (data_object (ex_event ''customer.subscription.updated'' ''active'' ''price2'')) = ''active''
   \<and> subscriptionPlanId (ex_user (Some ''p1'') (Some ''sub0'')) = Some (plan_id ex_basic)
   \<and> plan_id ex_pro \<noteq> plan_id ex_basic
   \<and> roles_of (ex_world (ex_user (Some ''p1'') (Some ''sub0'')) [''r1'']) ''u1'' = [roleId ex_basic]
   \<and> roles_of
        (snd (handle_event (ex_event ''customer.subscription.updated'' ''active'' ''price2'')
           (ex_world (ex_user (Some ''p1'') (Some ''sub0'')) [''r1'']))) ''u1'' = [roleId ex_basic]"
  by (simp add: resolves_def ex_defs eval_defs del: set_map set_filter)

section \<open>The deletion transition\<close>

text \<open>
  C6. A deletion event whose subscription id is the one stored on the user row, for a
  user who holds the role of the event's plan: the handler returns, the role is no
  longer held, the row has the event's status (the terminal one), no plan and no
  external subscription id, and the run ends with the update of the row followed by
  one notification.
\<close>

theorem deleted_revokes_and_clears:
  assumes ty: "event_type ev = ''customer.subscription.deleted''"
    and res: "resolves ev w prof usr plan"
    and own: "stripeSubscriptionId usr = Some (sub_id (data_object ev))"
    and held: "roleId plan \<in> set (roles_of w (userId prof))"
  shows "fst (handle_event ev w) = Inr ReturnsUndefined
       \<and> roleId plan \<notin> set (roles_of (snd (handle_event ev w)) (userId prof))
       \<and> find (\<lambda>x. user_id x = userId prof) (users (snd (handle_event ev w)))
           = Some (usr\<lparr>subscriptionStatus := status (data_object ev),
                       subscriptionPlanId := None, stripeSubscriptionId := None\<rparr>)
       \<and> new_effects w (snd (handle_event ev w)) =
           [RepoRead (ProfileByCustomer (customer (data_object ev))), ReplyCode 204,
            RepoRead (PlanByPrice (stripePriceId plan)), RepoRead (UserById (userId prof)),
            GetUserRoles (userId prof),
            Unassign (userId prof) (roleId plan),
            Log Info (RoleUnassigned (userId prof) (roleId plan) Deletion),
            RepoUpdateUser (userId prof)
              \<lparr>set_subscriptionStatus = status (data_object ev),
               set_subscriptionPlanId = None, set_stripeSubscriptionId = Some None\<rparr>,
            Publish (userId prof) ''meUpdated'']"
proof -
  have nf: "\<not> foreign usr (data_object ev)"
    using own by (simp add: foreign_def)
  note run = deleted_run [OF ty res nf]
  have row: "find (\<lambda>x. user_id x = userId prof) (users (snd (handle_event ev w)))
      = Some (apply_patch \<lparr>set_subscriptionStatus = status (data_object ev),
               set_subscriptionPlanId = None, set_stripeSubscriptionId = Some None\<rparr> usr)"
    using resolvesD(2) [OF res] by (simp add: run find_map_update)
  have gone: "roleId plan \<notin> set (roles_of (snd (handle_event ev w)) (userId prof))"
    by (auto simp add: run roles_of_def)
  show ?thesis
    using held row gone by (simp add: run new_effects_def apply_patch_def)
qed

theorem deleted_revokes_and_clears_witness:
  "resolves (ex_event ''customer.subscription.deleted'' ''canceled'' ''price1'')
     (ex_world (ex_user (Some ''p1'') (Some ''sub1'')) [''r1'']) ex_profile
     (ex_user (Some ''p1'') (Some ''sub1'')) ex_basic
   \<and> roleId ex_basic \<in> set (roles_of (ex_world (ex_user (Some ''p1'') (Some ''sub1'')) [''r1''])
        (userId ex_profile))
   \<and> roleId ex_basic \<notin> set (roles_of
        (snd (handle_event (ex_event ''customer.subscription.deleted'' ''canceled'' ''price1'')
           (ex_world (ex_user (Some ''p1'') (Some ''sub1'')) [''r1'']))) (userId ex_profile))
   \<and> find (\<lambda>x. user_id x = userId ex_profile)
        (users (snd (handle_event (ex_event ''customer.subscription.deleted'' ''canceled'' ''price1'')
           (ex_world (ex_user (Some ''p1'') (Some ''sub1'')) [''r1'']))))
      = Some \<lparr>user_id = ''u1'', subscriptionStatus = ''canceled'', subscriptionPlanId = None,
          stripeSubscriptionId = None\<rparr>"
proof -
  let ?ev = "ex_event ''customer.subscription.deleted'' ''canceled'' ''price1''"
  let ?usr = "ex_user (Some ''p1'') (Some ''sub1'')"
  let ?w = "ex_world ?usr [''r1'']"
  have ty: "event_type ?ev = ''customer.subscription.deleted''"
    by (simp add: ex_defs)
  have res: "resolves ?ev ?w ex_profile ?usr ex_basic"
    by (simp add: resolves_def ex_defs)
  have own: "stripeSubscriptionId ?usr = Some (sub_id (data_object ?ev))"
    by (simp add: ex_defs)
  have held: "roleId ex_basic \<in> set (roles_of ?w (userId ex_profile))"
    by (simp add: roles_of_def ex_defs)
  have row: "?usr\<lparr>subscriptionStatus := status (data_object ?ev),
        subscriptionPlanId := None, stripeSubscriptionId := None\<rparr>
      = \<lparr>user_id = ''u1'', subscriptionStatus = ''canceled'', subscriptionPlanId = None,
          stripeSubscriptionId = None\<rparr>"
    by (simp add: ex_defs)
  show ?thesis
    using deleted_revokes_and_clears [OF ty res own held] res held row by simp
qed

text \<open>
  C10, as amended. In a deletion run the only role removal is that of the role of the
  plan found by the event's price, and every other assignment stays. If the row refers
  to another plan, whose role is another one and is held, that role is still held after
  the run although the row's plan reference is now null.
\<close>

theorem deleted_unassigns_only_event_plan_role:
  assumes ty: "event_type ev = ''customer.subscription.deleted''"
    and res: "resolves ev w prof usr plan"
  shows "set (filter is_unassign (new_effects w (snd (handle_event ev w))))
           \<subseteq> {Unassign (userId prof) (roleId plan)}
       \<and> set (roleAssignments w) - {(userId prof, roleId plan)}
           \<subseteq> set (roleAssignments (snd (handle_event ev w)))
       \<and> (\<not> foreign usr (data_object ev)
            \<and> subscriptionPlanId usr = Some i
            \<and> find (\<lambda>x. plan_id x = i) (subscriptionPlans w) = Some old
            \<and> roleId old \<noteq> roleId plan
            \<and> roleId old \<in> set (roles_of w (userId prof))
          \<longrightarrow> roleId old \<in> set (roles_of (snd (handle_event ev w)) (userId prof))
            \<and> find (\<lambda>x. user_id x = userId prof) (users (snd (handle_event ev w)))
                = Some (usr\<lparr>subscriptionStatus := status (data_object ev),
                      subscriptionPlanId := None, stripeSubscriptionId := None\<rparr>))"
proof (cases "foreign usr (data_object ev)")
  case True
  show ?thesis
    using True
    by (simp add: deleted_foreign_run [OF ty res True] new_effects_def is_unassign_def)
next
  case False
  note run = deleted_run [OF ty res False]
  have a: "set (filter is_unassign (new_effects w (snd (handle_event ev w))))
           \<subseteq> {Unassign (userId prof) (roleId plan)}"
    by (auto simp add: run new_effects_def is_unassign_def)
  have b: "set (roleAssignments w) - {(userId prof, roleId plan)}
           \<subseteq> set (roleAssignments (snd (handle_event ev w)))"
    by (auto simp add: run)
  have c: "roleId old \<in> set (roles_of (snd (handle_event ev w)) (userId prof))"
    if "roleId old \<noteq> roleId plan" "roleId old \<in> set (roles_of w (userId prof))"
    using that by (auto simp add: run roles_of_def)
  have d: "find (\<lambda>x. user_id x = userId prof) (users (snd (handle_event ev w)))
                = Some (usr\<lparr>subscriptionStatus := status (data_object ev),
                      subscriptionPlanId := None, stripeSubscriptionId := None\<rparr>)"
    using resolvesD(2) [OF res] by (simp add: run find_map_update apply_patch_def)
  show ?thesis
    using a b c d by blast
qed

theorem deleted_unassigns_only_event_plan_role_witness:
  "roleId ex_pro \<in> set (roles_of (ex_world (ex_user (Some ''p2'') (Some ''sub1'')) [''r2''])
       (userId ex_profile))
   \<and> roleId ex_pro \<in> set (roles_of
        (snd (handle_event (ex_event ''customer.subscription.deleted'' ''canceled'' ''price1'')
           (ex_world (ex_user (Some ''p2'') (Some ''sub1'')) [''r2'']))) (userId ex_profile))
   \<and> find (\<lambda>x. user_id x = userId ex_profile)
        (users (snd (handle_event (ex_event ''customer.subscription.deleted'' ''canceled'' ''price1'')
           (ex_world (ex_user (Some ''p2'') (Some ''sub1'')) [''r2'']))))
      = Some \<lparr>user_id = ''u1'', subscriptionStatus = ''canceled'', subscriptionPlanId = None,
          stripeSubscriptionId = None\<rparr>"
proof -
  let ?ev = "ex_event ''customer.subscription.deleted'' ''canceled'' ''price1''"
  let ?usr = "ex_user (Some ''p2'') (Some ''sub1'')"
  let ?w = "ex_world ?usr [''r2'']"
  have ty: "event_type ?ev = ''customer.subscription.deleted''"
    by (simp add: ex_defs)
  have res: "resolves ?ev ?w ex_profile ?usr ex_basic"
    by (simp add: resolves_def ex_defs)
  have hyp: "\<not> foreign ?usr (data_object ?ev)"
    "subscriptionPlanId ?usr = Some ''p2''"
    "find (\<lambda>x. plan_id x = ''p2'') (subscriptionPlans ?w) = Some ex_pro"
    "roleId ex_pro \<noteq> roleId ex_basic"
    "roleId ex_pro \<in> set (roles_of ?w (userId ex_profile))"
    by (simp_all add: foreign_def truthy_def roles_of_def ex_defs)
  have row: "?usr\<lparr>subscriptionStatus := status (data_object ?ev),
        subscriptionPlanId := None, stripeSubscriptionId := None\<rparr>
      = \<lparr>user_id = ''u1'', subscriptionStatus = ''canceled'', subscriptionPlanId = None,
          stripeSubscriptionId = None\<rparr>"
    by (simp add: ex_defs)
  show ?thesis
    using deleted_unassigns_only_event_plan_role [OF ty res, of "''p2''" ex_pro] hyp
    unfolding row by blast
qed

text \<open>
  C10 as stated lets the stored plan be any plan other than the event's. When the two
  plans grant the same role, the stored plan's role is the one removed.
\<close>

theorem deleted_shared_role_counterexample:
  "resolves (ex_event ''customer.subscription.deleted'' ''canceled'' ''price1'')
     (ex_world (ex_user (Some ''p3'') (Some ''sub1'')) [''r1'']) ex_profile
     (ex_user (Some ''p3'') (Some ''sub1'')) ex_basic
   \<and> subscriptionPlanId (ex_user (Some ''p3'') (Some ''sub1'')) = Some (plan_id ex_yearly)
   \<and> plan_id ex_yearly \<noteq> plan_id ex_basic
   \<and> roles_of (ex_world (ex_user (Some ''p3'') (Some ''sub1'')) [''r1'']) ''u1'' = [roleId ex_yearly]
   \<and> roles_of
        (snd (handle_event (ex_event ''customer.subscription.deleted'' ''canceled'' ''price1'')
           (ex_world (ex_user (Some ''p3'') (Some ''sub1'')) [''r1'']))) ''u1'' = []"
  by (simp add: resolves_def ex_defs eval_defs del: set_map set_filter)

section \<open>The role invariant\<close>

text \<open>
  C1, as amended. Call a run reconciling when it is a creation for a user without a
  stored subscription id and with status active, an update past the foreign-event
  guard with status active that is a first plan, a plan change or, with the plan
  unchanged, carries a previous status, or a deletion past the guard. Plan ids are
  unique, and on a plan change the old plan exists and its role is not the new plan's.
  Then the handler returns, and afterwards the catalogue roles the user holds are
  exactly the role of the plan the row then refers to (none when it refers to none)
  if and only if, before the run, every catalogue role the user held was a tolerated
  one: any role on a first-plan update, where the run itself unassigns every other
  catalogue role; the event plan's and the stored plan's role on the other updates;
  the event plan's role on a creation or a deletion.
\<close>

theorem reconciling_transition_invariant:
  assumes res: "resolves ev w prof usr plan"
    and rec: "reconciles ev usr plan"
    and ids: "distinct (map plan_id (subscriptionPlans w))"
    and ref: "event_type ev = ''customer.subscription.updated'' \<and> plan_changes usr plan
        \<longrightarrow> plan_reference_ok w usr"
    and diff: "event_type ev = ''customer.subscription.updated'' \<and> plan_changes usr plan
        \<longrightarrow> roleId plan \<notin> plan_role w (userId prof)"
  shows "fst (handle_event ev w) = Inr ReturnsUndefined
       \<and> (subscription_roles (snd (handle_event ev w)) (userId prof)
             = plan_role (snd (handle_event ev w)) (userId prof)
          \<longleftrightarrow> subscription_roles w (userId prof) \<subseteq> tolerated ev w usr plan)"
proof -
  let ?u = "userId prof"
  let ?R = "roleId plan"
  let ?H = "{r. (?u, r) \<in> set (roleAssignments w)}"
  let ?C = "roleId ` set (subscriptionPlans w)"
  let ?w' = "snd (handle_event ev w)"
  note usr = resolvesD(2) [OF res]
  note uid = resolvesD(3) [OF res]
  have plan_in: "plan \<in> set (subscriptionPlans w)"
    by (rule resolvesD(6) [OF res])
  then have R_in: "?R \<in> ?C" by simp
  have by_id: "find (\<lambda>x. plan_id x = plan_id plan) (subscriptionPlans w) = Some plan"
    by (rule find_by_id_distinct [OF ids plan_in])
  have roles_set: "set (roles_of w ?u) = ?H"
    by (auto simp add: held_iff)
  have before: "subscription_roles w ?u = ?H \<inter> ?C"
    by (simp add: subscription_roles_eq)
  have kinds: "event_type ev = ''customer.subscription.created''
      \<or> event_type ev = ''customer.subscription.updated''
      \<or> event_type ev = ''customer.subscription.deleted''"
    using rec by (simp add: reconciles_def split: if_splits)
  have created_facts: "stripeSubscriptionId usr = None \<and> status (data_object ev) = ''active''"
    if "event_type ev = ''customer.subscription.created''"
    using rec that by (simp add: reconciles_def)
  have updated_facts: "\<not> foreign usr (data_object ev) \<and> status (data_object ev) = ''active''
      \<and> (\<not> truthy (subscriptionPlanId usr) \<or> plan_changes usr plan
         \<or> (case previous_attributes ev of None \<Rightarrow> False | Some p \<Rightarrow> truthy (prev_status p)))"
    if "event_type ev = ''customer.subscription.updated''"
    using rec that by (simp add: reconciles_def)
  have deleted_facts: "\<not> foreign usr (data_object ev)"
    if "event_type ev = ''customer.subscription.deleted''"
    using rec that by (simp add: reconciles_def)
  from kinds show ?thesis
  proof (elim disjE)
    assume ty: "event_type ev = ''customer.subscription.created''"
    from created_facts [OF ty] have fresh: "stripeSubscriptionId usr = None"
      and act: "status (data_object ev) = ''active''"
      by simp_all
    note run = created_run [OF ty res fresh]
    have tolerated: "tolerated ev w usr plan = {?R}"
      using ty by (simp add: tolerated_def)
    have key: "{r. (?u, r) \<in> set (roleAssignments ?w')} \<inter> roleId ` set (subscriptionPlans ?w') = {?R}
        \<longleftrightarrow> ?H \<inter> ?C \<subseteq> {?R}"
      using R_in act by (auto simp add: run granted_def roles_set split: if_splits)
    have row: "find (\<lambda>x. user_id x = ?u) (users ?w')
        = Some (apply_patch \<lparr>set_subscriptionStatus = status (data_object ev),
                         set_subscriptionPlanId = Some (plan_id plan),
                         set_stripeSubscriptionId = Some (Some (sub_id (data_object ev)))\<rparr> usr)"
      by (simp add: run find_map_update [OF usr])
    have plans: "find (\<lambda>x. plan_id x = plan_id plan) (subscriptionPlans ?w') = Some plan"
      by (simp add: run by_id)
    have "subscription_roles ?w' ?u = plan_role ?w' ?u \<longleftrightarrow>
        {r. (?u, r) \<in> set (roleAssignments ?w')} \<inter> roleId ` set (subscriptionPlans ?w') = {?R}"
      by (rule invariant_iff_with_plan [OF row plans]) (simp add: apply_patch_def)
    then show ?thesis
      unfolding key tolerated before by (simp add: run)
  next
    assume ty: "event_type ev = ''customer.subscription.deleted''"
    from deleted_facts [OF ty] have own: "\<not> foreign usr (data_object ev)" .
    note run = deleted_run [OF ty res own]
    have tolerated: "tolerated ev w usr plan = {?R}"
      using ty by (simp add: tolerated_def)
    have key: "{r. (?u, r) \<in> set (roleAssignments ?w')} \<inter> roleId ` set (subscriptionPlans ?w') = {}
        \<longleftrightarrow> ?H \<inter> ?C \<subseteq> {?R}"
      by (auto simp add: run)
    have row: "find (\<lambda>x. user_id x = ?u) (users ?w')
        = Some (apply_patch \<lparr>set_subscriptionStatus = status (data_object ev),
                         set_subscriptionPlanId = None,
                         set_stripeSubscriptionId = Some None\<rparr> usr)"
      by (simp add: run find_map_update [OF usr])
    have "subscription_roles ?w' ?u = plan_role ?w' ?u \<longleftrightarrow>
        {r. (?u, r) \<in> set (roleAssignments ?w')} \<inter> roleId ` set (subscriptionPlans ?w') = {}"
      by (rule invariant_iff_without_plan [OF row]) (simp add: apply_patch_def)
    then show ?thesis
      unfolding key tolerated before by (simp add: run)
  next
    assume ty: "event_type ev = ''customer.subscription.updated''"
    from updated_facts [OF ty] have own: "\<not> foreign usr (data_object ev)"
      and act: "status (data_object ev) = ''active''"
      and branch: "\<not> truthy (subscriptionPlanId usr) \<or> plan_changes usr plan
         \<or> (case previous_attributes ev of None \<Rightarrow> False | Some p \<Rightarrow> truthy (prev_status p))"
      by simp_all
    let ?w1 = "w\<lparr>statusCode := 204, trace := trace w @
           [RepoRead (ProfileByCustomer (customer (data_object ev))), ReplyCode 204,
            RepoRead (UserById (userId prof)), RepoRead (PlanByPrice (stripePriceId plan))]\<rparr>"
    have "\<exists>RA T. update_roles usr (data_object ev) (previous_attributes ev) plan ?w1 =
          (Inr (), ?w1\<lparr>roleAssignments := RA, trace := trace ?w1 @ T\<rparr>)
        \<and> ({r. (?u, r) \<in> set RA} \<inter> ?C = {?R} \<longleftrightarrow> ?H \<inter> ?C \<subseteq> tolerated ev w usr plan)"
    proof (cases "truthy (subscriptionPlanId usr)")
      case False
      let ?RA = "filter (\<lambda>a. \<not> stale ?u (map roleId (subscriptionPlans w)) ?R (roles_of w ?u) a)
           (roleAssignments w) @ granted (roles_of w ?u) ?u ?R"
      have all: "tolerated ev w usr plan = UNIV"
        using ty False by (simp add: tolerated_def)
      have "{r. (?u, r) \<in> set ?RA} \<inter> ?C = {?R}"
        using R_in by (auto simp add: stale_def granted_def roles_set split: if_splits)
      then have "{r. (?u, r) \<in> set ?RA} \<inter> ?C = {?R}
          \<longleftrightarrow> ?H \<inter> ?C \<subseteq> tolerated ev w usr plan"
        unfolding all by simp
      moreover have "update_roles usr (data_object ev) (previous_attributes ev) plan ?w1 =
          (Inr (), ?w1\<lparr>roleAssignments := ?RA, trace := trace ?w1 @
             ([RepoRead AllPlans, GetUserRoles ?u] @
              others_trace ?u (map roleId (subscriptionPlans w)) ?R (roles_of w ?u) @
              grant_trace Update ?u ?R (roles_of w ?u))\<rparr>)"
        by (simp add: update_roles_first_plan [OF False] uid)
      ultimately show ?thesis by blast
    next
      case True
      then obtain i where i: "subscriptionPlanId usr = Some i" "i \<noteq> []"
        by (auto simp: truthy_def split: option.splits)
      have tolerated: "tolerated ev w usr plan = insert ?R (plan_role w ?u)"
        using ty True by (simp add: tolerated_def uid)
      show ?thesis
      proof (cases "plan_id plan = i")
        case False
        have changes: "plan_changes usr plan"
          using True False i by (auto simp add: plan_changes_def)
        with ref ty i obtain old where old: "find (\<lambda>x. plan_id x = i) (subscriptionPlans w) = Some old"
          by (auto simp: plan_reference_ok_def)
        have old_in: "roleId old \<in> ?C"
          using find_SomeD [OF old] by simp
        have pr: "plan_role w ?u = {roleId old}"
          by (simp add: plan_role_eq [OF usr] i old)
        from diff ty changes pr have ne: "?R \<noteq> roleId old" by simp
        let ?RA = "filter (\<lambda>a. a \<noteq> (user_id usr, roleId old)) (roleAssignments w)
           @ granted (roles_of w (user_id usr)) (user_id usr) ?R"
        have old1: "find (\<lambda>x. plan_id x = i) (subscriptionPlans ?w1) = Some old"
          using old by simp
        have "{r. (?u, r) \<in> set ?RA} \<inter> ?C = {?R} \<longleftrightarrow> ?H \<inter> ?C \<subseteq> {?R, roleId old}"
          using R_in ne
          by (auto simp add: uid granted_def roles_set split: if_splits)
        moreover have "update_roles usr (data_object ev) (previous_attributes ev) plan ?w1 =
          (Inr (), ?w1\<lparr>roleAssignments := ?RA, trace := trace ?w1 @
             ([RepoRead (PlanById i), GetUserRoles (user_id usr)] @
              (if roleId old \<in> set (roles_of w (user_id usr))
               then [Unassign (user_id usr) (roleId old),
                     Log Info (RoleUnassigned (user_id usr) (roleId old) Update)]
               else []) @
              grant_trace Update (user_id usr) ?R (roles_of w (user_id usr)))\<rparr>)"
          by (simp add: update_roles_plan_change [OF i False old1])
        ultimately show ?thesis
          unfolding tolerated pr by blast
      next
        case same: True
        then have "\<not> plan_changes usr plan"
          using i by (simp add: plan_changes_def)
        with branch True obtain p where p: "previous_attributes ev = Some p" "truthy (prev_status p)"
          by (auto split: option.splits)
        have stored: "subscriptionPlanId usr = Some (plan_id plan)" "plan_id plan \<noteq> []"
          using same i by simp_all
        have pr: "plan_role w ?u = {?R}"
          by (simp add: plan_role_eq [OF usr] stored by_id)
        let ?RA = "roleAssignments w @ granted (roles_of w (user_id usr)) (user_id usr) ?R"
        have "{r. (?u, r) \<in> set ?RA} \<inter> ?C = {?R} \<longleftrightarrow> ?H \<inter> ?C \<subseteq> {?R}"
          using R_in
          by (auto simp add: uid granted_def roles_set split: if_splits)
        moreover have "update_roles usr (data_object ev) (previous_attributes ev) plan ?w1 =
          (Inr (), ?w1\<lparr>roleAssignments := ?RA, trace := trace ?w1 @
             (GetUserRoles (user_id usr) #
              grant_trace Update (user_id usr) ?R (roles_of w (user_id usr)))\<rparr>)"
          by (simp add: update_roles_status_change [OF stored p])
        ultimately show ?thesis
          unfolding tolerated pr insert_absorb2 by blast
      qed
    qed
    then obtain RA T where
      roles: "update_roles usr (data_object ev) (previous_attributes ev) plan ?w1 =
          (Inr (), ?w1\<lparr>roleAssignments := RA, trace := trace ?w1 @ T\<rparr>)"
      and RA: "{r. (?u, r) \<in> set RA} \<inter> ?C = {?R} \<longleftrightarrow> ?H \<inter> ?C \<subseteq> tolerated ev w usr plan"
      by blast
    note run = updated_active_run [OF ty res own act roles]
    have key: "{r. (?u, r) \<in> set (roleAssignments ?w')} \<inter> roleId ` set (subscriptionPlans ?w') = {?R}
        \<longleftrightarrow> ?H \<inter> ?C \<subseteq> tolerated ev w usr plan"
      using RA by (simp add: run)
    have row: "find (\<lambda>x. user_id x = ?u) (users ?w')
        = Some (apply_patch \<lparr>set_subscriptionStatus = ''active'',
                         set_subscriptionPlanId = Some (plan_id plan),
                         set_stripeSubscriptionId =
                           (if truthy (stripeSubscriptionId usr) then None
                            else Some (Some (sub_id (data_object ev))))\<rparr> usr)"
      by (simp add: run find_map_update [OF usr])
    have plans: "find (\<lambda>x. plan_id x = plan_id plan) (subscriptionPlans ?w') = Some plan"
      by (simp add: run by_id)
    have "subscription_roles ?w' ?u = plan_role ?w' ?u \<longleftrightarrow>
        {r. (?u, r) \<in> set (roleAssignments ?w')} \<inter> roleId ` set (subscriptionPlans ?w') = {?R}"
      by (rule invariant_iff_with_plan [OF row plans]) (simp add: apply_patch_def)
    then show ?thesis
      unfolding key before by (simp add: run)
  qed
qed

theorem reconciling_transition_invariant_witness:
  "reconciles (ex_event ''customer.subscription.updated'' ''active'' ''price1'')
     (ex_user None None) ex_basic
   \<and> roles_of (ex_world (ex_user None None) [''r2'']) ''u1'' = [''r2'']
   \<and> roles_of
        (snd (handle_event (ex_event ''customer.subscription.updated'' ''active'' ''price1'')
           (ex_world (ex_user None None) [''r2'']))) ''u1'' = [''r1'']
   \<and> subscription_roles
        (snd (handle_event (ex_event ''customer.subscription.updated'' ''active'' ''price1'')
           (ex_world (ex_user None None) [''r2'']))) (userId ex_profile)
     = plan_role
        (snd (handle_event (ex_event ''customer.subscription.updated'' ''active'' ''price1'')
           (ex_world (ex_user None None) [''r2'']))) (userId ex_profile)"
proof -
  let ?ev = "ex_event ''customer.subscription.updated'' ''active'' ''price1''"
  let ?usr = "ex_user None None"
  let ?w = "ex_world ?usr [''r2'']"
  have res: "resolves ?ev ?w ex_profile ?usr ex_basic"
    by (simp add: resolves_def ex_defs)
  have rec: "reconciles ?ev ?usr ex_basic"
    by (simp add: reconciles_def plan_changes_def foreign_def truthy_def ex_defs)
  have ids: "distinct (map plan_id (subscriptionPlans ?w))"
    by (simp add: ex_defs)
  have same: "\<not> plan_changes ?usr ex_basic"
    by (simp add: plan_changes_def truthy_def ex_defs)
  then have ref: "event_type ?ev = ''customer.subscription.updated'' \<and> plan_changes ?usr ex_basic
        \<longrightarrow> plan_reference_ok ?w ?usr"
    and diff: "event_type ?ev = ''customer.subscription.updated'' \<and> plan_changes ?usr ex_basic
        \<longrightarrow> roleId ex_basic \<notin> plan_role ?w (userId ex_profile)"
    by simp_all
  have any: "tolerated ?ev ?w ?usr ex_basic = UNIV"
    by (simp add: tolerated_def truthy_def ex_defs)
  have before: "roles_of ?w ''u1'' = [''r2'']"
    by (simp add: roles_of_def ex_defs)
  have after: "roles_of (snd (handle_event ?ev ?w)) ''u1'' = [''r1'']"
    by (simp add: ex_defs eval_defs del: set_map set_filter)
  show ?thesis
    using reconciling_transition_invariant [OF res rec ids ref diff] rec before after
    unfolding any by simp
qed

text \<open>
  C1 as stated holds for every transition. A creation event whose status is not
  active stores the plan on the row and assigns no role: the row's plan has a role
  and the user holds none.
\<close>

theorem created_incomplete_counterexample:
  "plan_role (snd (handle_event (ex_event ''customer.subscription.created'' ''incomplete'' ''price1'')
      (ex_world (ex_user None None) []))) ''u1'' = {roleId ex_basic}
   \<and> subscription_roles
       (snd (handle_event (ex_event ''customer.subscription.created'' ''incomplete'' ''price1'')
          (ex_world (ex_user None None) []))) ''u1'' = {}"
  by (simp add: plan_role_def subscription_roles_def catalogue_roles_def ex_defs eval_defs
      del: set_map set_filter)

end
